theory Spec2Isabelle
  imports Complex_Main "HOL-Library.Log_Nat"
begin

section \<open>JavaScript string primitives\<close>

text \<open>
  Strings are lists of 8-bit characters, read as the code units U+0000..U+00FF.
  Numbers are exact rationals.
\<close>

definition NL :: char where
  "NL = CHR 0x0A"

text \<open>The characters removed by \<^verbatim>\<open>String.prototype.trim\<close> and matched by \<^verbatim>\<open>\s\<close>
  (WhiteSpace and LineTerminator) among the code units below 256.\<close>

definition isSpace :: "char \<Rightarrow> bool" where
  "isSpace c = (c = CHR 0x09 \<or> c = CHR 0x0A \<or> c = CHR 0x0B \<or> c = CHR 0x0C \<or> c = CHR 0x0D
     \<or> c = CHR 0x20 \<or> c = CHR 0xA0)"

definition trim :: "string \<Rightarrow> string" where
  "trim s = rev (dropWhile isSpace (rev (dropWhile isSpace s)))"

definition startsWith :: "string \<Rightarrow> string \<Rightarrow> bool" where
  "startsWith s p = (take (length p) s = p)"

definition endsWith :: "string \<Rightarrow> string \<Rightarrow> bool" where
  "endsWith s p = (length p \<le> length s \<and> drop (length s - length p) s = p)"

text \<open>\<^verbatim>\<open>s.substring(n)\<close> for \<open>n \<ge> 0\<close>.\<close>

definition substring :: "string \<Rightarrow> nat \<Rightarrow> string" where
  "substring s n = drop n s"

text \<open>\<^verbatim>\<open>s.split(c)\<close> for a one-character separator: never the empty list.\<close>

fun split :: "char \<Rightarrow> string \<Rightarrow> string list" where
  "split c [] = [[]]"
| "split c (x # xs) =
     (if x = c then [] # split c xs
      else (case split c xs of [] \<Rightarrow> [[x]] | w # ws \<Rightarrow> (x # w) # ws))"

text \<open>\<^verbatim>\<open>xs.join(sep)\<close>.\<close>

fun join :: "string \<Rightarrow> string list \<Rightarrow> string" where
  "join sep [] = []"
| "join sep [x] = x"
| "join sep (x # y # ys) = x @ sep @ join sep (y # ys)"

section \<open>The section splitter of the PDF exporter\<close>

record Section =
  heading :: string
  content :: string

text \<open>The loop state of \<^verbatim>\<open>parseMarkdown\<close>: \<^verbatim>\<open>currentHeading\<close>, \<^verbatim>\<open>currentContent\<close>
  and \<^verbatim>\<open>sections\<close>.\<close>

record parse_state =
  currentHeading :: string
  currentContent :: "string list"
  sections :: "Section list"

definition pushSection :: "parse_state \<Rightarrow> Section list" where
  "pushSection st =
     (if currentHeading st \<noteq> []
      then sections st @ [\<lparr>heading = currentHeading st, content = join [NL] (currentContent st)\<rparr>]
      else sections st)"

definition parseLine :: "parse_state \<Rightarrow> string \<Rightarrow> parse_state" where
  "parseLine st line =
     (if startsWith line ''# ''
      then \<lparr>currentHeading = substring line 2, currentContent = [], sections = pushSection st\<rparr>
      else st\<lparr>currentContent := currentContent st @ [line]\<rparr>)"

definition parseLines :: "string list \<Rightarrow> Section list" where
  "parseLines lines =
     pushSection (foldl parseLine \<lparr>currentHeading = [], currentContent = [], sections = []\<rparr> lines)"

definition parseMarkdown :: "string \<Rightarrow> Section list" where
  "parseMarkdown markdown = parseLines (split NL markdown)"


section \<open>Cross-note links\<close>

text \<open>
  One attempt of \<^verbatim>\<open>/\[\[([^\]]+)\]\]/\<close> at the start of the text: two opening brackets, the
  longest non-empty run of characters other than \<^verbatim>\<open>]\<close> (the capture), two closing brackets.
  A shorter run never helps, because the character after it is not \<^verbatim>\<open>]\<close>. The result is
  the capture and the text after the match.
\<close>

definition matchNoteLink :: "string \<Rightarrow> (string \<times> string) option" where
  "matchNoteLink s =
     (if startsWith s ''[[''
      then (let body = drop 2 s;
                title = takeWhile (\<lambda>c. c \<noteq> CHR '']'') body;
                rest = dropWhile (\<lambda>c. c \<noteq> CHR '']'') body
            in if title \<noteq> [] \<and> startsWith rest '']]'' then Some (title, drop 2 rest) else None)
      else None)"

text \<open>\<^verbatim>\<open>processedContent.replace(/\[\[([^\]]+)\]\]/g, "$1")\<close>: matches are taken left to right,
  each replaced by its capture, and the scan goes on after the match.\<close>

function replaceNoteLinks :: "string \<Rightarrow> string" where
  "replaceNoteLinks [] = []"
| "replaceNoteLinks (c # cs) =
     (case matchNoteLink (c # cs) of
        Some (title, rest) \<Rightarrow> title @ replaceNoteLinks rest
      | None \<Rightarrow> c # replaceNoteLinks cs)"
  by pat_completeness auto
termination
proof (relation "measure length")
  show "wf (measure length)" by simp
next
  fix c cs x2 x y
  assume "matchNoteLink (c # cs) = Some x2" and "(x, y) = x2"
  then have "matchNoteLink (c # cs) = Some (x, y)" by simp
  then have "y = drop 2 (dropWhile (\<lambda>c. c \<noteq> CHR '']'') (drop 2 (c # cs)))"
    by (auto simp: matchNoteLink_def Let_def split: if_splits)
  moreover have "length (dropWhile (\<lambda>c. c \<noteq> CHR '']'') cs') \<le> length cs'" for cs' :: string
    by (rule length_dropWhile_le)
  ultimately have "length y \<le> length (drop 2 (c # cs))"
    by (metis diff_le_self le_trans length_drop)
  then show "(y, c # cs) \<in> measure length" by simp
next
  fix c cs
  assume "matchNoteLink (c # cs) = None"
  show "(cs, c # cs) \<in> measure length" by simp
qed

text \<open>The image-loading stage of \<^verbatim>\<open>processContentForExport\<close> reads the asynchronous image
  store and compiles a regular expression from each image id; it is the parameter
  \<open>imageStage\<close>. The note-link stage follows it.\<close>

definition processContentForExport :: "(string \<Rightarrow> string) \<Rightarrow> string \<Rightarrow> string" where
  "processContentForExport imageStage markdown = replaceNoteLinks (imageStage markdown)"

text \<open>The \<^verbatim>\<open>exec\<close> loop of \<^verbatim>\<open>extractNoteLinks\<close>: the trimmed capture of every match, in
  order.\<close>

function noteLinkMatches :: "string \<Rightarrow> string list" where
  "noteLinkMatches [] = []"
| "noteLinkMatches (c # cs) =
     (case matchNoteLink (c # cs) of
        Some (title, rest) \<Rightarrow> trim title # noteLinkMatches rest
      | None \<Rightarrow> noteLinkMatches cs)"
  by pat_completeness auto
termination
proof (relation "measure length")
  show "wf (measure length)" by simp
next
  fix c cs x2 x y
  assume "matchNoteLink (c # cs) = Some x2" and "(x, y) = x2"
  then have "matchNoteLink (c # cs) = Some (x, y)" by simp
  then have "y = drop 2 (dropWhile (\<lambda>c. c \<noteq> CHR '']'') (drop 2 (c # cs)))"
    by (auto simp: matchNoteLink_def Let_def split: if_splits)
  moreover have "length (dropWhile (\<lambda>c. c \<noteq> CHR '']'') cs') \<le> length cs'" for cs' :: string
    by (rule length_dropWhile_le)
  ultimately have "length y \<le> length (drop 2 (c # cs))"
    by (metis diff_le_self le_trans length_drop)
  then show "(y, c # cs) \<in> measure length" by simp
next
  fix c cs
  assume "matchNoteLink (c # cs) = None"
  show "(cs, c # cs) \<in> measure length" by simp
qed

text \<open>\<^verbatim>\<open>[...new Set(links)]\<close>: the first occurrence of each element, in insertion order.\<close>

definition uniqueInOrder :: "'a list \<Rightarrow> 'a list" where
  "uniqueInOrder xs = foldl (\<lambda>acc x. if x \<in> set acc then acc else acc @ [x]) [] xs"

definition extractNoteLinks :: "string \<Rightarrow> string list" where
  "extractNoteLinks markdown = uniqueInOrder (noteLinkMatches markdown)"

text \<open>A text as the scan of \<^verbatim>\<open>/\[\[([^\]]+)\]\]/g\<close> divides it: the matches, each with its
  capture, and the characters between them.\<close>

datatype piece = Plain string | NoteLink string

fun pieceSource :: "piece \<Rightarrow> string" where
  "pieceSource (Plain s) = s"
| "pieceSource (NoteLink t) = ''[['' @ t @ '']]''"

fun pieceText :: "piece \<Rightarrow> string" where
  "pieceText (Plain s) = s"
| "pieceText (NoteLink t) = t"

fun linkTitles :: "piece list \<Rightarrow> string list" where
  "linkTitles [] = []"
| "linkTitles (Plain s # ps) = linkTitles ps"
| "linkTitles (NoteLink t # ps) = trim t # linkTitles ps"

function linkPieces :: "string \<Rightarrow> piece list" where
  "linkPieces [] = []"
| "linkPieces (c # cs) =
     (case matchNoteLink (c # cs) of
        Some (title, rest) \<Rightarrow> NoteLink title # linkPieces rest
      | None \<Rightarrow> Plain [c] # linkPieces cs)"
  by pat_completeness auto
termination
proof (relation "measure length")
  show "wf (measure length)" by simp
next
  fix c cs x2 x y
  assume "matchNoteLink (c # cs) = Some x2" and "(x, y) = x2"
  then have "matchNoteLink (c # cs) = Some (x, y)" by simp
  then have "y = drop 2 (dropWhile (\<lambda>c. c \<noteq> CHR '']'') (drop 2 (c # cs)))"
    by (auto simp: matchNoteLink_def Let_def split: if_splits)
  moreover have "length (dropWhile (\<lambda>c. c \<noteq> CHR '']'') cs') \<le> length cs'" for cs' :: string
    by (rule length_dropWhile_le)
  ultimately have "length y \<le> length (drop 2 (c # cs))"
    by (metis diff_le_self le_trans length_drop)
  then show "(y, c # cs) \<in> measure length" by simp
next
  fix c cs
  assume "matchNoteLink (c # cs) = None"
  show "(cs, c # cs) \<in> measure length" by simp
qed

section \<open>Download filenames\<close>

definition toLowerChar :: "char \<Rightarrow> char" where
  "toLowerChar c =
     (let n = (of_char c :: nat)
      in if (65 \<le> n \<and> n \<le> 90) \<or> (192 \<le> n \<and> n \<le> 222 \<and> n \<noteq> 215)
         then char_of (n + 32) else c)"

definition toLowerCase :: "string \<Rightarrow> string" where
  "toLowerCase s = map toLowerChar s"

text \<open>The class \<^verbatim>\<open>[a-z0-9]\<close> under the flag \<^verbatim>\<open>i\<close>.\<close>

definition isAlnum :: "char \<Rightarrow> bool" where
  "isAlnum c =
     (let n = (of_char c :: nat)
      in (97 \<le> n \<and> n \<le> 122) \<or> (65 \<le> n \<and> n \<le> 90) \<or> (48 \<le> n \<and> n \<le> 57))"

text \<open>\<^verbatim>\<open>title.replace(/\s+/g, "-")\<close>: every maximal run of white space becomes one hyphen.\<close>

function replaceSpaceRuns :: "string \<Rightarrow> string" where
  "replaceSpaceRuns [] = []"
| "replaceSpaceRuns (c # cs) =
     (if isSpace c then CHR ''-'' # replaceSpaceRuns (dropWhile isSpace cs)
      else c # replaceSpaceRuns cs)"
  by pat_completeness auto
termination
  by (relation "measure length") (auto simp: length_dropWhile_le less_Suc_eq_le)

text \<open>\<^verbatim>\<open>title.replace(/[^a-z0-9]/gi, "-")\<close>: every single character outside the class becomes
  a hyphen.\<close>

definition replaceNonAlnum :: "string \<Rightarrow> string" where
  "replaceNonAlnum s = map (\<lambda>c. if isAlnum c then c else CHR ''-'') s"

definition pdfFilename :: "string \<Rightarrow> string" where
  "pdfFilename title = toLowerCase (replaceSpaceRuns title) @ ''.pdf''"

definition ankiTsvFilename :: "string \<Rightarrow> string" where
  "ankiTsvFilename title = toLowerCase (replaceNonAlnum title) @ ''-flashcards.txt''"

definition ankiZipFilename :: "string \<Rightarrow> string" where
  "ankiZipFilename title = toLowerCase (replaceNonAlnum title) @ ''-anki-flashcards.zip''"

text \<open>The derivation in the words of the specification: every maximal run of
  non-alphanumeric characters becomes one hyphen, the result is lowercased, and the
  extension is appended.\<close>

function replaceNonAlnumRuns :: "string \<Rightarrow> string" where
  "replaceNonAlnumRuns [] = []"
| "replaceNonAlnumRuns (c # cs) =
     (if \<not> isAlnum c then CHR ''-'' # replaceNonAlnumRuns (dropWhile (\<lambda>c. \<not> isAlnum c) cs)
      else c # replaceNonAlnumRuns cs)"
  by pat_completeness auto
termination
  by (relation "measure length") (auto simp: length_dropWhile_le less_Suc_eq_le)

definition specFilename :: "string \<Rightarrow> string \<Rightarrow> string" where
  "specFilename title ext = toLowerCase (replaceNonAlnumRuns title) @ ext"

section \<open>Table column alignment\<close>

text \<open>\<^verbatim>\<open>xs.slice(1, -1)\<close>.\<close>

definition slice1m1 :: "'a list \<Rightarrow> 'a list" where
  "slice1m1 xs = butlast (drop 1 xs)"

text \<open>\<^verbatim>\<open>xs[i]\<close>, \<open>None\<close> for \<^verbatim>\<open>undefined\<close>.\<close>

definition index :: "'a list \<Rightarrow> nat \<Rightarrow> 'a option" where
  "index xs i = (if i < length xs then Some (xs ! i) else None)"

text \<open>The alignment that \<^verbatim>\<open>renderTable\<close> computes for column \<open>colIndex\<close> from the
  separator row (the same code for the header, the redrawn header and the cells).\<close>

definition pdfCellAlign :: "string \<Rightarrow> string" where
  "pdfCellAlign alignmentCell =
     (if startsWith (trim alignmentCell) '':'' \<and> endsWith (trim alignmentCell) '':''
      then ''center''
      else if endsWith (trim alignmentCell) '':'' then ''right''
      else ''left'')"

definition pdfTextAlign :: "string \<Rightarrow> nat \<Rightarrow> string" where
  "pdfTextAlign separatorRow colIndex =
     (let separatorCells = slice1m1 (split (CHR ''|'') separatorRow);
          alignmentCell = (case index separatorCells colIndex of
                             None \<Rightarrow> ''---''
                           | Some cell \<Rightarrow> if cell = [] then ''---'' else cell)
      in pdfCellAlign alignmentCell)"

text \<open>The \<^verbatim>\<open>alignments\<close> array of \<^verbatim>\<open>convertTableToHtml\<close> and its use
  \<^verbatim>\<open>alignments[i] || "left"\<close>.\<close>

definition ankiCellAlignment :: "string \<Rightarrow> string" where
  "ankiCellAlignment sep =
     (let trimmed = trim sep
      in if startsWith trimmed '':'' \<and> endsWith trimmed '':'' then ''center''
         else if endsWith trimmed '':'' then ''right''
         else ''left'')"

definition ankiAlignments :: "string \<Rightarrow> string list" where
  "ankiAlignments separatorRow = map ankiCellAlignment (slice1m1 (split (CHR ''|'') separatorRow))"

definition ankiAlign :: "string \<Rightarrow> nat \<Rightarrow> string" where
  "ankiAlign separatorRow i =
     (case index (ankiAlignments separatorRow) i of
        None \<Rightarrow> ''left''
      | Some a \<Rightarrow> if a = [] then ''left'' else a)"

section \<open>Image placement\<close>

definition maxImageHeight :: rat where
  "maxImageHeight = 80"

text \<open>The numbers of the size computation are binary64 floating-point numbers: every
  division and multiplication there returns the exact result rounded to the nearest
  number with a significand of 53 bits, ties to the even significand. \<open>expo x\<close> is
  the exponent of a positive \<open>x\<close>, \<open>2 powi expo x \<le> x < 2 powi (expo x + 1)\<close>, and
  \<open>rnd x\<close> is \<open>x\<close> rounded. The range of the exponent is not bounded here: the
  results of the size computation stay in the normal range of binary64 for the image
  sizes that the browser reports (unsigned 32-bit integers) and every column width of
  a page.\<close>

definition expo :: "rat \<Rightarrow> int" where
  "expo x =
     (let k = bitlen (fst (quotient_of x)) - bitlen (snd (quotient_of x))
      in if 2 powi k \<le> x then k else k - 1)"

definition roundHalfEven :: "rat \<Rightarrow> int" where
  "roundHalfEven q =
     (let n = \<lfloor>q\<rfloor>; f = q - of_int n
      in if f < 1 / 2 then n else if 1 / 2 < f then n + 1 else if even n then n else n + 1)"

definition rnd :: "rat \<Rightarrow> rat" where
  "rnd x =
     (if x = 0 then 0
      else (let ulp = 2 powi (expo \<bar>x\<bar> - 52)
            in sgn x * of_int (roundHalfEven (\<bar>x\<bar> / ulp)) * ulp))"

text \<open>The size computed in the \<^verbatim>\<open>onload\<close> handler of \<^verbatim>\<open>addImagesToPdf\<close> from the
  intrinsic \<^verbatim>\<open>img.width\<close> and \<^verbatim>\<open>img.height\<close> (non-negative integers):
  \<open>(finalWidth, finalHeight)\<close>, or \<open>None\<close> when one of the two is not a finite number.
  With a height of 0 the ratio is \<^verbatim>\<open>Infinity\<close> (\<^verbatim>\<open>NaN\<close> for 0 by 0), so
  \<^verbatim>\<open>imgHeight\<close> is 0 and the size is \<open>(maxWidth, 0)\<close>; with a width of 0 the ratio is 0
  and \<^verbatim>\<open>imgHeight\<close> is \<^verbatim>\<open>maxWidth / 0\<close>: \<^verbatim>\<open>Infinity\<close> for a positive \<^verbatim>\<open>maxWidth\<close>,
  clamped to 80 with the width \<^verbatim>\<open>80 * 0\<close>, and \<^verbatim>\<open>-Infinity\<close> or \<^verbatim>\<open>NaN\<close> otherwise.\<close>

definition placedSize :: "rat \<Rightarrow> nat \<times> nat \<Rightarrow> (rat \<times> rat) option" where
  "placedSize maxWidth dims =
     (if snd dims = 0
      then (if fst dims = 0 then None else Some (maxWidth, 0))
      else if fst dims = 0
      then (if 0 < maxWidth then Some (0, maxImageHeight) else None)
      else (let aspectRatio = rnd (of_nat (fst dims) / of_nat (snd dims));
                imgWidth = maxWidth;
                imgHeight = rnd (imgWidth / aspectRatio);
                finalHeight = min imgHeight maxImageHeight;
                finalWidth = (if finalHeight = imgHeight then imgWidth
                              else rnd (finalHeight * aspectRatio))
            in Some (finalWidth, finalHeight)))"

section \<open>Regular expressions\<close>

text \<open>
  The regular expressions of the source are written as terms of \<open>re\<close> and run by a
  backtracking matcher in the order of ECMAScript: the alternatives of a choice left to
  right, a greedy repetition longest first, a lazy one shortest first. A repetition
  rejects an iteration that consumes nothing. \<open>Group n\<close> is the \<open>n\<close>-th capturing group.
\<close>

datatype re =
    Lit char
  | Cls "char \<Rightarrow> bool"
  | Eps
  | Seq re re
  | Alt re re
  | Star re
  | StarLazy re
  | Group nat re
  | Bol
  | Eol

type_synonym captures = "(nat \<times> string) list"
type_synonym mstate = "nat \<times> captures"

definition isLineTerminator :: "char \<Rightarrow> bool" where
  "isLineTerminator c = (c = CHR 0x0A \<or> c = CHR 0x0D)"

text \<open>The atoms \<^verbatim>\<open>.\<close>, \<^verbatim>\<open>\s\<close>, \<^verbatim>\<open>\d\<close>, \<^verbatim>\<open>[^c]\<close>, \<^verbatim>\<open>[cd]\<close>, a literal string,
  \<^verbatim>\<open>r+\<close> and \<^verbatim>\<open>r?\<close>.\<close>

definition Dot :: re where
  "Dot = Cls (\<lambda>c. \<not> isLineTerminator c)"

definition isDigit :: "char \<Rightarrow> bool" where
  "isDigit c = (48 \<le> (of_char c :: nat) \<and> (of_char c :: nat) \<le> 57)"

definition Not :: "char \<Rightarrow> re" where
  "Not x = Cls (\<lambda>c. c \<noteq> x)"

definition Either :: "char \<Rightarrow> char \<Rightarrow> re" where
  "Either x y = Cls (\<lambda>c. c = x \<or> c = y)"

fun Str :: "string \<Rightarrow> re" where
  "Str [] = Eps"
| "Str [c] = Lit c"
| "Str (c # cs) = Seq (Lit c) (Str cs)"

definition Plus :: "re \<Rightarrow> re" where
  "Plus r = Seq r (Star r)"

definition Opt :: "re \<Rightarrow> re" where
  "Opt r = Alt r Eps"

fun seqs :: "re list \<Rightarrow> re" where
  "seqs [] = Eps"
| "seqs [r] = r"
| "seqs (r # rs) = Seq r (seqs rs)"

text \<open>Repetition: the continuations of the state after zero or more iterations of \<open>f\<close>,
  each iteration moving forward. The fuel is the length of the input, which bounds the
  number of such iterations.\<close>

fun starGreedy :: "(mstate \<Rightarrow> mstate list) \<Rightarrow> nat \<Rightarrow> mstate \<Rightarrow> mstate list" where
  "starGreedy f 0 st = [st]"
| "starGreedy f (Suc n) st =
     concat (map (starGreedy f n) (filter (\<lambda>st'. fst st < fst st') (f st))) @ [st]"

fun starLazy :: "(mstate \<Rightarrow> mstate list) \<Rightarrow> nat \<Rightarrow> mstate \<Rightarrow> mstate list" where
  "starLazy f 0 st = [st]"
| "starLazy f (Suc n) st =
     st # concat (map (starLazy f n) (filter (\<lambda>st'. fst st < fst st') (f st)))"

text \<open>\<open>matches s ml r st\<close>: all ways to match \<open>r\<close> in the input \<open>s\<close> from the state \<open>st\<close>
  (position and captures), in backtracking order; \<open>ml\<close> is the flag \<^verbatim>\<open>m\<close>.\<close>

primrec matches :: "string \<Rightarrow> bool \<Rightarrow> re \<Rightarrow> mstate \<Rightarrow> mstate list" where
  "matches s ml (Lit c) =
     (\<lambda>st. if fst st < length s \<and> s ! fst st = c then [(Suc (fst st), snd st)] else [])"
| "matches s ml (Cls p) =
     (\<lambda>st. if fst st < length s \<and> p (s ! fst st) then [(Suc (fst st), snd st)] else [])"
| "matches s ml Eps = (\<lambda>st. [st])"
| "matches s ml (Seq a b) = (\<lambda>st. concat (map (matches s ml b) (matches s ml a st)))"
| "matches s ml (Alt a b) = (\<lambda>st. matches s ml a st @ matches s ml b st)"
| "matches s ml (Star a) = (\<lambda>st. starGreedy (matches s ml a) (length s) st)"
| "matches s ml (StarLazy a) = (\<lambda>st. starLazy (matches s ml a) (length s) st)"
| "matches s ml (Group n a) =
     (\<lambda>st. map (\<lambda>st'. (fst st', (n, take (fst st' - fst st) (drop (fst st) s)) # snd st'))
               (matches s ml a st))"
| "matches s ml Bol =
     (\<lambda>st. if fst st = 0 \<or> (ml \<and> isLineTerminator (s ! (fst st - 1))) then [st] else [])"
| "matches s ml Eol =
     (\<lambda>st. if fst st = length s \<or> (ml \<and> isLineTerminator (s ! fst st)) then [st] else [])"

record rmatch =
  mstart :: nat
  mend :: nat
  groups :: captures

text \<open>\<^verbatim>\<open>regex.exec(s)\<close> with \<^verbatim>\<open>lastIndex = i\<close>: the first position from \<open>i\<close> on where the
  expression matches, with the first match in backtracking order.\<close>

definition exec :: "re \<Rightarrow> bool \<Rightarrow> string \<Rightarrow> nat \<Rightarrow> rmatch option" where
  "exec r ml s i =
     (case List.find (\<lambda>j. matches s ml r (j, []) \<noteq> []) [i ..< Suc (length s)] of
        None \<Rightarrow> None
      | Some j \<Rightarrow>
          (case matches s ml r (j, []) of
             [] \<Rightarrow> None
           | st # _ \<Rightarrow> Some \<lparr>mstart = j, mend = fst st, groups = snd st\<rparr>))"

text \<open>\<^verbatim>\<open>match[0]\<close> and \<^verbatim>\<open>match[n]\<close> (\<open>None\<close> for \<^verbatim>\<open>undefined\<close>).\<close>

definition matched :: "string \<Rightarrow> rmatch \<Rightarrow> string" where
  "matched s m = take (mend m - mstart m) (drop (mstart m) s)"

definition group :: "rmatch \<Rightarrow> nat \<Rightarrow> string option" where
  "group m n = map_of (groups m) n"

text \<open>\<^verbatim>\<open>regex.test(s)\<close> and the truth value of \<^verbatim>\<open>s.match(regex)\<close> without the flag
  \<^verbatim>\<open>g\<close>.\<close>

definition test :: "re \<Rightarrow> string \<Rightarrow> bool" where
  "test r s = (exec r False s 0 \<noteq> None)"

text \<open>\<^verbatim>\<open>s.replace(regex, fn)\<close> with the flag \<^verbatim>\<open>g\<close>; \<open>fn\<close> gets the match. After an empty
  match the scan moves one character on. The fuel bounds the number of matches.\<close>

fun replaceLoop :: "re \<Rightarrow> bool \<Rightarrow> (string \<Rightarrow> rmatch \<Rightarrow> string) \<Rightarrow> string \<Rightarrow> nat \<Rightarrow> nat \<Rightarrow> string" where
  "replaceLoop r ml fn s 0 i = drop i s"
| "replaceLoop r ml fn s (Suc fuel) i =
     (case exec r ml s i of
        None \<Rightarrow> drop i s
      | Some m \<Rightarrow>
          take (mstart m - i) (drop i s) @ fn s m @
          (if mend m = mstart m
           then take 1 (drop (mend m) s) @ replaceLoop r ml fn s fuel (Suc (mend m))
           else replaceLoop r ml fn s fuel (mend m)))"

definition replaceAll :: "re \<Rightarrow> bool \<Rightarrow> (string \<Rightarrow> rmatch \<Rightarrow> string) \<Rightarrow> string \<Rightarrow> string" where
  "replaceAll r ml fn s = replaceLoop r ml fn s (Suc (Suc (length s))) 0"

text \<open>The replacement pattern \<^verbatim>\<open>$1\<close>.\<close>

definition dollar1 :: "string \<Rightarrow> rmatch \<Rightarrow> string" where
  "dollar1 s m = (case group m 1 of None \<Rightarrow> [] | Some g \<Rightarrow> g)"

section \<open>More string operations\<close>

text \<open>\<^verbatim>\<open>s.indexOf(pat)\<close> (\<open>None\<close> for \<open>-1\<close>) and \<^verbatim>\<open>s.includes(pat)\<close>.\<close>

definition indexOf :: "string \<Rightarrow> string \<Rightarrow> nat option" where
  "indexOf s pat = List.find (\<lambda>i. take (length pat) (drop i s) = pat) [0 ..< Suc (length s)]"

definition includesStr :: "string \<Rightarrow> string \<Rightarrow> bool" where
  "includesStr s pat = (indexOf s pat \<noteq> None)"

text \<open>The replacement patterns of \<^verbatim>\<open>s.replace(pat, template)\<close> for a string \<open>pat\<close>:
  \<^verbatim>\<open>$$\<close>, \<^verbatim>\<open>$&\<close>, \<^verbatim>\<open>$`\<close> and \<^verbatim>\<open>$'\<close>; there are no captures, so \<^verbatim>\<open>$n\<close> stays as it is.\<close>

fun expand :: "string \<Rightarrow> string \<Rightarrow> string \<Rightarrow> string \<Rightarrow> string" where
  "expand m pre post [] = []"
| "expand m pre post [c] = [c]"
| "expand m pre post (c # d # r) =
     (if c = CHR ''$'' \<and> d = CHR ''$'' then CHR ''$'' # expand m pre post r
      else if c = CHR ''$'' \<and> d = CHR ''&'' then m @ expand m pre post r
      else if c = CHR ''$'' \<and> d = CHR 0x60 then pre @ expand m pre post r
      else if c = CHR ''$'' \<and> d = CHR 0x27 then post @ expand m pre post r
      else c # expand m pre post (d # r))"

text \<open>\<^verbatim>\<open>s.replace(pat, template)\<close> for a string \<open>pat\<close>: the first occurrence only.\<close>

definition replaceFirst :: "string \<Rightarrow> string \<Rightarrow> string \<Rightarrow> string" where
  "replaceFirst s pat template =
     (case indexOf s pat of
        None \<Rightarrow> s
      | Some i \<Rightarrow>
          take i s @ expand pat (take i s) (drop (i + length pat) s) template
            @ drop (i + length pat) s)"

text \<open>The matches of a \<^verbatim>\<open>while ((match = regex.exec(s)) !== null)\<close> loop over a fixed
  string with the flag \<^verbatim>\<open>g\<close>, for an expression that matches no empty string:
  \<^verbatim>\<open>lastIndex\<close> grows with every match, so the fuel \<open>length s + 1\<close> is never used up.\<close>

fun execLoop :: "re \<Rightarrow> string \<Rightarrow> nat \<Rightarrow> nat \<Rightarrow> rmatch list" where
  "execLoop r s 0 i = []"
| "execLoop r s (Suc fuel) i =
     (case exec r False s i of
        None \<Rightarrow> []
      | Some m \<Rightarrow> m # execLoop r s fuel (mend m))"

definition execAll :: "re \<Rightarrow> string \<Rightarrow> rmatch list" where
  "execAll r s = execLoop r s (Suc (length s)) 0"

section \<open>The environment of the exporters\<close>

text \<open>\<^verbatim>\<open>getImage\<close> resolves to the stored data, resolves to \<^verbatim>\<open>null\<close>, or rejects.\<close>

datatype image_lookup = Stored string | Missing | Rejected

text \<open>The font state of the jsPDF document, on which its text measurement depends.\<close>

record pdf_font =
  fontName :: string
  fontStyle :: string
  fontSize :: rat

text \<open>What the exporters take from outside: the image store; the key
  \<^verbatim>\<open>img_${Date.now()}_${Math.random()...}\<close> generated for the \<open>n\<close>-th embedded image of a
  call; the formatting stage of \<^verbatim>\<open>cleanMarkdownForAnki\<close> (its chain of replacements
  after the image stage, tables and lists included); the image stage of
  \<^verbatim>\<open>processContentForExport\<close>; the text measurement and the page size of jsPDF; the
  intrinsic size \<^verbatim>\<open>(img.width, img.height)\<close> that the browser reports when it loads a
  data URL (\<open>None\<close> when it calls \<^verbatim>\<open>onerror\<close>); whether
  \<^verbatim>\<open>doc.addImage(src, format, x, y, width, height, undefined, "FAST")\<close> of jsPDF throws
  (the size is \<open>None\<close> when it is not finite); and the blob that \<^verbatim>\<open>fetch\<close> makes of a
  data URL (\<open>None\<close> when it fails).\<close>

record env =
  getImage :: "string \<Rightarrow> image_lookup"
  imageKey :: "nat \<Rightarrow> string"
  formatMarkdown :: "string \<Rightarrow> string"
  loadImages :: "string \<Rightarrow> string"
  splitTextToSize :: "pdf_font \<Rightarrow> string \<Rightarrow> rat \<Rightarrow> string list"
  getTextWidth :: "pdf_font \<Rightarrow> string \<Rightarrow> rat"
  pageWidth :: rat
  pageHeight :: rat
  imageSize :: "string \<Rightarrow> (nat \<times> nat) option"
  addImageThrows :: "string \<Rightarrow> string \<Rightarrow> rat \<Rightarrow> rat \<Rightarrow> (rat \<times> rat) option \<Rightarrow> bool"
  fetchBlob :: "string \<Rightarrow> string option"

section \<open>The flashcard exporter\<close>

type_synonym image_map = "(string \<times> string) list"

text \<open>\<^verbatim>\<open>obj[key] = value\<close> on an object kept in insertion order.\<close>

fun objSet :: "string \<Rightarrow> string \<Rightarrow> image_map \<Rightarrow> image_map" where
  "objSet k v [] = [(k, v)]"
| "objSet k v ((k', v') # xs) = (if k = k' then (k, v) # xs else (k', v') # objSet k v xs)"

record FlashCard =
  front :: string
  back' :: string
  images :: image_map

definition DQ :: char where
  "DQ = CHR 0x22"

definition SQ :: char where
  "SQ = CHR 0x27"

text \<open>\<^verbatim>\<open>/<img[^>]*src=["'](.*?)["'][^>]*(?:alt=["'](.*?)["'])?[^>]*>/g\<close>\<close>

definition htmlImageRegex :: re where
  "htmlImageRegex =
     seqs [Str ''<img'', Star (Not (CHR ''>'')), Str ''src='', Either DQ SQ,
           Group 1 (StarLazy Dot), Either DQ SQ, Star (Not (CHR ''>'')),
           Opt (seqs [Str ''alt='', Either DQ SQ, Group 2 (StarLazy Dot), Either DQ SQ]),
           Star (Not (CHR ''>'')), Lit (CHR ''>'')]"

text \<open>\<^verbatim>\<open>/!\[(.*?)\]$$(.*?)$$/g\<close>, as the source has it: after the closing bracket come
  two end-of-input assertions, the second group, and two more.\<close>

definition markdownImageRegex :: re where
  "markdownImageRegex =
     seqs [Lit (CHR ''!''), Lit (CHR ''[''), Group 1 (StarLazy Dot), Lit (CHR '']''),
           Eol, Eol, Group 2 (StarLazy Dot), Eol, Eol]"

text \<open>The state of the first loop of \<^verbatim>\<open>processImagesForAnki\<close>: \<^verbatim>\<open>processedContent\<close>,
  \<^verbatim>\<open>images\<close> and the number of keys generated so far.\<close>

record image_state =
  processedContent :: string
  imageMap :: image_map
  generated :: nat

definition orImage :: "string option \<Rightarrow> string" where
  "orImage g = (case g of None \<Rightarrow> ''Image'' | Some a \<Rightarrow> if a = [] then ''Image'' else a)"

definition isPlaceholder :: "string \<Rightarrow> bool" where
  "isPlaceholder src = (includesStr src ''/placeholder.svg'' \<or> includesStr src ''/generic-placeholder-icon.png'')"

text \<open>The part of the loop body after \<^verbatim>\<open>imageData\<close> is known.\<close>

definition embedImage :: "env \<Rightarrow> string \<Rightarrow> string \<Rightarrow> string \<Rightarrow> string \<Rightarrow> image_state \<Rightarrow> image_state" where
  "embedImage env fullMatch src alt imageData st =
     (if isPlaceholder src
      then st\<lparr>processedContent := replaceFirst (processedContent st) fullMatch
                 (''<p><em>[Placeholder image: '' @ alt @ '']</em></p>'')\<rparr>
      else if startsWith imageData ''data:''
      then (let imageKey' = imageKey env (generated st);
                extension = (if includesStr imageData ''data:image/png'' then ''png'' else ''jpg'');
                filename = imageKey' @ ''.'' @ extension;
                ankiImg = ''<img src='' @ [DQ] @ filename @ [DQ] @ '' alt='' @ [DQ] @ alt @ [DQ]
                  @ '' style='' @ [DQ] @ ''max-width: 100%; height: auto; margin: 10px 0;'' @ [DQ] @ ''>''
            in \<lparr>processedContent = replaceFirst (processedContent st) fullMatch ankiImg,
                imageMap = objSet filename imageData (imageMap st),
                generated = Suc (generated st)\<rparr>)
      else (let styledImg = ''<img src='' @ [DQ] @ src @ [DQ] @ '' alt='' @ [DQ] @ alt @ [DQ]
                  @ '' style='' @ [DQ] @ ''max-width: 100%; height: auto; margin: 10px 0;'' @ [DQ] @ ''>''
            in st\<lparr>processedContent := replaceFirst (processedContent st) fullMatch styledImg\<rparr>))"

text \<open>One iteration of the first loop, for one match of \<^verbatim>\<open>htmlImageRegex\<close> in \<open>text\<close>.\<close>

definition htmlImageStep :: "env \<Rightarrow> string \<Rightarrow> image_state \<Rightarrow> rmatch \<Rightarrow> image_state" where
  "htmlImageStep env text st m =
     (let fullMatch = matched text m;
          src = (case group m 1 of None \<Rightarrow> [] | Some g \<Rightarrow> g);
          alt = orImage (group m 2)
      in if startsWith src ''cornell-image://''
         then (let imageId = replaceFirst src ''cornell-image://'' []
               in case getImage env imageId of
                    Stored storedImage \<Rightarrow>
                      if storedImage \<noteq> [] then embedImage env fullMatch src alt storedImage st
                      else st\<lparr>processedContent := replaceFirst (processedContent st) fullMatch
                                 (''<p><em>[Image not found: '' @ alt @ '']</em></p>'')\<rparr>
                  | Missing \<Rightarrow>
                      st\<lparr>processedContent := replaceFirst (processedContent st) fullMatch
                            (''<p><em>[Image not found: '' @ alt @ '']</em></p>'')\<rparr>
                  | Rejected \<Rightarrow>
                      st\<lparr>processedContent := replaceFirst (processedContent st) fullMatch
                            (''<p><em>[Error loading image: '' @ alt @ '']</em></p>'')\<rparr>)
         else embedImage env fullMatch src alt src st)"

text \<open>The second loop of \<^verbatim>\<open>processImagesForAnki\<close>: \<^verbatim>\<open>markdownImageRegex.exec\<close> runs on
  the changing \<^verbatim>\<open>processedContent\<close> from the \<^verbatim>\<open>lastIndex\<close> of the previous match; the
  match is rewritten into an \<^verbatim>\<open>img\<close> tag and nothing else is done with it. The value
  is \<open>None\<close> when the loop does not end.\<close>

partial_function (option) markdownImageLoop :: "string \<Rightarrow> nat \<Rightarrow> string option" where
  "markdownImageLoop processed lastIndex =
     (case exec markdownImageRegex False processed lastIndex of
        None \<Rightarrow> Some processed
      | Some m \<Rightarrow>
          (let fullMatch = matched processed m;
               alt = orImage (group m 1);
               src = (case group m 2 of None \<Rightarrow> [] | Some g \<Rightarrow> g);
               htmlImg = ''<img src='' @ [DQ] @ src @ [DQ] @ '' alt='' @ [DQ] @ alt @ [DQ] @ ''>''
           in markdownImageLoop (replaceFirst processed fullMatch htmlImg) (mend m)))"

declare markdownImageLoop.simps [code]

definition processImagesForAnki :: "env \<Rightarrow> string \<Rightarrow> (string \<times> image_map) option" where
  "processImagesForAnki env text =
     (let st = foldl (htmlImageStep env text)
                 \<lparr>processedContent = text, imageMap = [], generated = 0\<rparr>
                 (execAll htmlImageRegex text)
      in case markdownImageLoop (processedContent st) 0 of
           None \<Rightarrow> None
         | Some html \<Rightarrow> Some (html, imageMap st))"

definition cleanMarkdownForAnki :: "env \<Rightarrow> string \<Rightarrow> (string \<times> image_map) option" where
  "cleanMarkdownForAnki env text =
     (case processImagesForAnki env text of
        None \<Rightarrow> None
      | Some (imageProcessedText, images') \<Rightarrow> Some (formatMarkdown env imageProcessedText, images'))"

text \<open>The test and push that \<^verbatim>\<open>parseNotesToFlashcards\<close> makes for a finished section.\<close>

definition pushCard :: "env \<Rightarrow> string \<Rightarrow> string list \<Rightarrow> FlashCard list \<Rightarrow> FlashCard list option" where
  "pushCard env curHeading curContent flashcards =
     (if curHeading \<noteq> [] \<and> 0 < length curContent
      then (let contentText = trim (join [NL] curContent)
            in if contentText \<noteq> []
               then (case cleanMarkdownForAnki env contentText of
                       None \<Rightarrow> None
                     | Some (cleaned, imgs) \<Rightarrow>
                         Some (flashcards @ [\<lparr>front = curHeading, back' = cleaned, images = imgs\<rparr>]))
               else Some flashcards)
      else Some flashcards)"

text \<open>The body of the \<^verbatim>\<open>lines.forEach\<close> loop: the section found is only prepared for a
  function that is never called, so the loop changes \<^verbatim>\<open>currentHeading\<close> and
  \<^verbatim>\<open>currentContent\<close> and nothing else.\<close>

definition scanLine :: "string \<times> string list \<Rightarrow> string \<Rightarrow> string \<times> string list" where
  "scanLine st line =
     (if startsWith line ''# '' then (trim (substring line 2), [])
      else if fst st \<noteq> [] then (fst st, snd st @ [line])
      else st)"

text \<open>The body of the \<^verbatim>\<open>for\<close> loop over the same lines; \<open>None\<close> when a call of
  \<^verbatim>\<open>cleanMarkdownForAnki\<close> does not return.\<close>

definition cardLine :: "env \<Rightarrow> (string \<times> string list \<times> FlashCard list) option \<Rightarrow> string
    \<Rightarrow> (string \<times> string list \<times> FlashCard list) option" where
  "cardLine env state line =
     (case state of
        None \<Rightarrow> None
      | Some (curHeading, curContent, flashcards) \<Rightarrow>
          if startsWith line ''# ''
          then (case pushCard env curHeading curContent flashcards of
                  None \<Rightarrow> None
                | Some flashcards' \<Rightarrow> Some (trim (substring line 2), [], flashcards'))
          else if curHeading \<noteq> [] then Some (curHeading, curContent @ [line], flashcards)
          else Some (curHeading, curContent, flashcards))"

text \<open>\<^verbatim>\<open>parseNotesToFlashcards\<close>: the summary card, the \<^verbatim>\<open>forEach\<close> loop, the \<^verbatim>\<open>for\<close>
  loop, which starts from the heading and content that the first loop left, and the
  last section.\<close>

definition parseNotesToFlashcards :: "env \<Rightarrow> string \<Rightarrow> string \<Rightarrow> string \<Rightarrow> FlashCard list option" where
  "parseNotesToFlashcards env title summary markdown =
     (case (if trim summary \<noteq> []
            then (case cleanMarkdownForAnki env summary of
                    None \<Rightarrow> None
                  | Some (cleaned, imgs) \<Rightarrow>
                      Some [\<lparr>front = title @ '' - Summary'', back' = cleaned, images = imgs\<rparr>])
            else Some []) of
        None \<Rightarrow> None
      | Some flashcards \<Rightarrow>
          (let lines = split NL markdown;
               scanned = foldl scanLine ([], []) lines
           in case foldl (cardLine env) (Some (fst scanned, snd scanned, flashcards)) lines of
                None \<Rightarrow> None
              | Some (curHeading, curContent, flashcards') \<Rightarrow>
                  pushCard env curHeading curContent flashcards'))"

text \<open>\<^verbatim>\<open>generateAnkiTSV\<close>.\<close>

definition TAB :: char where
  "TAB = CHR 0x09"

definition CR :: char where
  "CR = CHR 0x0D"

definition space :: "string \<Rightarrow> rmatch \<Rightarrow> string" where
  "space s m = '' ''"

definition tsvLine :: "FlashCard \<Rightarrow> string" where
  "tsvLine flashcard =
     (let front' = replaceAll (Seq (Opt (Lit CR)) (Lit NL)) False space
                     (replaceAll (Lit TAB) False space (front flashcard));
          back'' = replaceAll (Lit TAB) False space (back' flashcard)
      in front' @ [TAB] @ back'')"

definition generateAnkiTSV :: "FlashCard list \<Rightarrow> string" where
  "generateAnkiTSV flashcards = join [NL] (map tsvLine flashcards)"

text \<open>The archive handed to \<^verbatim>\<open>downloadBlob\<close>: the name of the download, and the entries
  for the card file and the images. \<^verbatim>\<open>README.txt\<close>, a fixed text with the two counts and
  the current date, is left out. An image whose \<^verbatim>\<open>fetch\<close> fails has no entry.\<close>

record anki_download =
  zipFilename :: string
  entries :: "(string \<times> string) list"

definition noFlashcardsMessage :: string where
  "noFlashcardsMessage =
     ''No flashcards could be generated from this note. Make sure you have headings (# sections) with content.''"

text \<open>\<^verbatim>\<open>Object.assign(allImages, card.images)\<close> over all cards.\<close>

definition collectImages :: "FlashCard list \<Rightarrow> image_map" where
  "collectImages flashcards =
     foldl (\<lambda>allImages flashcard.
              foldl (\<lambda>acc kv. objSet (fst kv) (snd kv) acc) allImages (images flashcard))
       [] flashcards"

text \<open>\<^verbatim>\<open>exportToAnki\<close>: \<open>Inl\<close> is the error thrown to the caller, \<open>Inr\<close> the download;
  \<open>None\<close> when the function does not return.\<close>

definition exportToAnki :: "env \<Rightarrow> string \<Rightarrow> string \<Rightarrow> string \<Rightarrow> (string + anki_download) option" where
  "exportToAnki env title summary markdown =
     (case parseNotesToFlashcards env title summary markdown of
        None \<Rightarrow> None
      | Some flashcards \<Rightarrow>
          if length flashcards = 0 then Some (Inl noFlashcardsMessage)
          else (let allImages = collectImages flashcards;
                    tsvContent = generateAnkiTSV flashcards;
                    filename = ankiTsvFilename title
                in Some (Inr \<lparr>zipFilename = ankiZipFilename title,
                              entries = (filename, tsvContent)
                                # List.map_filter
                                    (\<lambda>kv. case fetchBlob env (snd kv) of
                                            None \<Rightarrow> None
                                          | Some blob \<Rightarrow> Some (''images/'' @ fst kv, blob))
                                    allImages\<rparr>)))"

section \<open>The PDF document\<close>

text \<open>
  The jsPDF document is the number of its pages, the page being drawn on, the font state
  and the list of the items drawn so far, each with its page. Colours and line widths
  do not influence the layout and are not kept.
\<close>

datatype draw_op =
    TextAt string rat rat
  | TextAligned string rat rat string string
  | TextBlock "string list" rat rat
  | LineSeg rat rat rat rat
  | FilledRect rat rat rat rat
  | ImageAt string string rat rat rat rat

record pdf_doc =
  pages :: nat
  page :: nat
  font :: pdf_font
  drawn :: "(nat \<times> draw_op) list"

definition newDoc :: pdf_doc where
  "newDoc = \<lparr>pages = 1, page = 1,
             font = \<lparr>fontName = ''helvetica'', fontStyle = ''normal'', fontSize = 16\<rparr>,
             drawn = []\<rparr>"

definition addPage :: "pdf_doc \<Rightarrow> pdf_doc" where
  "addPage doc = doc\<lparr>pages := Suc (pages doc), page := Suc (pages doc)\<rparr>"

definition setPage :: "pdf_doc \<Rightarrow> nat \<Rightarrow> pdf_doc" where
  "setPage doc n = doc\<lparr>page := n\<rparr>"

definition draw :: "pdf_doc \<Rightarrow> draw_op \<Rightarrow> pdf_doc" where
  "draw doc item = doc\<lparr>drawn := drawn doc @ [(page doc, item)]\<rparr>"

definition setFontSize :: "pdf_doc \<Rightarrow> rat \<Rightarrow> pdf_doc" where
  "setFontSize doc n = doc\<lparr>font := (font doc)\<lparr>fontSize := n\<rparr>\<rparr>"

text \<open>\<^verbatim>\<open>setFont\<close> of the source: only the built-in fonts, bold or normal.\<close>

definition setFont :: "pdf_doc \<Rightarrow> string \<Rightarrow> string \<Rightarrow> pdf_doc" where
  "setFont doc name weight =
     (let safeFont = (if toLowerCase name \<in> set [''helvetica'', ''times'', ''courier'']
                      then toLowerCase name else ''helvetica'')
      in doc\<lparr>font := (font doc)\<lparr>fontName := safeFont,
                         fontStyle := (if weight = ''bold'' then ''bold'' else ''normal'')\<rparr>\<rparr>)"

record FontSettings =
  titleFont :: string
  bodyFont :: string
  mixedMode :: bool
  titleFontSize :: rat
  bodyFontSize :: rat
  smallFontSize :: rat

datatype font_choice = Sans | Serif | Mixed

fun getFontSettings :: "font_choice \<Rightarrow> FontSettings" where
  "getFontSettings Serif =
     \<lparr>titleFont = ''times'', bodyFont = ''times'', mixedMode = False,
      titleFontSize = 14, bodyFontSize = 11, smallFontSize = 10\<rparr>"
| "getFontSettings Mixed =
     \<lparr>titleFont = ''helvetica'', bodyFont = ''times'', mixedMode = True,
      titleFontSize = 14, bodyFontSize = 11, smallFontSize = 10\<rparr>"
| "getFontSettings Sans =
     \<lparr>titleFont = ''helvetica'', bodyFont = ''helvetica'', mixedMode = False,
      titleFontSize = 14, bodyFontSize = 11, smallFontSize = 10\<rparr>"

text \<open>\<^verbatim>\<open>cleanMarkdown\<close>: \<^verbatim>\<open>/\*\*(.*?)\*\*/g\<close>, then \<^verbatim>\<open>/\*(.*?)\*/g\<close>, then
  \<^verbatim>\<open>/`([^`]+)`/g\<close>, each replaced by \<^verbatim>\<open>$1\<close>.\<close>

definition boldRegex :: re where
  "boldRegex = seqs [Str ''**'', Group 1 (StarLazy Dot), Str ''**'']"

definition italicRegex :: re where
  "italicRegex = seqs [Lit (CHR ''*''), Group 1 (StarLazy Dot), Lit (CHR ''*'')]"

definition inlineCodeRegex :: re where
  "inlineCodeRegex = seqs [Lit (CHR 0x60), Group 1 (Plus (Not (CHR 0x60))), Lit (CHR 0x60)]"

definition cleanMarkdown :: "string \<Rightarrow> string" where
  "cleanMarkdown s =
     (let cleaned = replaceAll italicRegex False dollar1 (replaceAll boldRegex False dollar1 s)
      in replaceAll inlineCodeRegex False dollar1 cleaned)"

section \<open>The PDF layout engine\<close>

definition isTableLine :: "string \<Rightarrow> bool" where
  "isTableLine l = (startsWith (trim l) ''|'' \<and> endsWith (trim l) ''|'')"

definition cellPadding :: rat where
  "cellPadding = 3"

definition rowHeight :: rat where
  "rowHeight = 8"

definition lineHeight :: rat where
  "lineHeight = 6"

text \<open>The body of \<^verbatim>\<open>columns.forEach\<close> in \<^verbatim>\<open>renderTable\<close>: one header cell; the state is
  the document and \<^verbatim>\<open>currentX\<close>.\<close>

definition headerCell :: "string \<Rightarrow> rat \<Rightarrow> rat \<Rightarrow> pdf_doc \<times> rat \<Rightarrow> nat \<times> string \<Rightarrow> pdf_doc \<times> rat" where
  "headerCell separatorRow columnWidth currentY st col =
     (let currentX = snd st;
          colText = cleanMarkdown (snd col);
          textAlign = pdfTextAlign separatorRow (fst col);
          textX = (if textAlign = ''center'' then currentX + columnWidth / 2
                   else if textAlign = ''right'' then currentX + columnWidth - cellPadding
                   else currentX + cellPadding)
      in (draw (fst st) (TextAligned colText textX (currentY + rowHeight / 2 + 1) textAlign ''middle''),
          currentX + columnWidth))"

text \<open>Drawing the header row at \<^verbatim>\<open>currentY\<close>, the fonts before and after included.\<close>

definition drawHeader :: "FontSettings \<Rightarrow> string list \<Rightarrow> string \<Rightarrow> rat \<Rightarrow> rat \<Rightarrow> rat \<Rightarrow> pdf_doc \<Rightarrow> pdf_doc" where
  "drawHeader fontSettings columns separatorRow x columnWidth currentY doc =
     (let doc = setFontSize doc (bodyFontSize fontSettings);
          doc = setFont doc (titleFont fontSettings) ''bold'';
          doc = fst (foldl (headerCell separatorRow columnWidth currentY) (doc, x)
                       (enumerate 0 columns));
          doc = setFont doc (bodyFont fontSettings) ''normal''
      in setFontSize doc (bodyFontSize fontSettings))"

text \<open>One cell of a content row (the body of \<^verbatim>\<open>cells.forEach\<close>).\<close>

definition tableCell :: "env \<Rightarrow> string \<Rightarrow> nat \<Rightarrow> rat \<Rightarrow> rat \<Rightarrow> pdf_doc \<times> rat \<Rightarrow> nat \<times> string \<Rightarrow> pdf_doc \<times> rat" where
  "tableCell e separatorRow nColumns columnWidth currentY st cell =
     (if fst cell < nColumns
      then (let doc = fst st;
                currentX = snd st;
                textAlign = pdfTextAlign separatorRow (fst cell);
                textX = (if textAlign = ''center'' then currentX + columnWidth / 2
                         else if textAlign = ''right'' then currentX + columnWidth - cellPadding
                         else currentX + cellPadding);
                cellText = cleanMarkdown (snd cell);
                cellLines = splitTextToSize e (font doc) cellText (columnWidth - cellPadding * 2);
                textY = currentY + cellPadding;
                doc = foldl (\<lambda>d l. draw d (TextAligned (snd l) textX
                                               (textY + of_nat (fst l) * lineHeight) textAlign ''top''))
                        doc (enumerate 0 cellLines)
            in (doc, currentX + columnWidth))
      else st)"

text \<open>One iteration of the loop over \<^verbatim>\<open>contentRows\<close>; the state is the document and
  \<^verbatim>\<open>currentY\<close>.\<close>

definition tableRow :: "env \<Rightarrow> FontSettings \<Rightarrow> string list \<Rightarrow> string \<Rightarrow> nat \<Rightarrow> rat \<Rightarrow> rat \<Rightarrow> rat
    \<Rightarrow> rat \<Rightarrow> rat \<Rightarrow> pdf_doc \<times> rat \<Rightarrow> nat \<times> string \<Rightarrow> pdf_doc \<times> rat" where
  "tableRow e fontSettings columns separatorRow nRows x totalWidth columnWidth pageH margin st row =
     (let doc = fst st;
          currentY = snd st;
          broken = (if currentY + rowHeight > pageH - margin
                    then (let doc = addPage doc;
                              currentY = margin;
                              doc = drawHeader fontSettings columns separatorRow x columnWidth currentY doc;
                              currentY = currentY + rowHeight
                          in (draw doc (LineSeg x currentY (x + totalWidth) currentY), currentY))
                    else (doc, currentY));
          doc = fst broken;
          currentY = snd broken;
          cells = map trim (slice1m1 (split (CHR ''|'') (snd row)));
          doc = fst (foldl (tableCell e separatorRow (length columns) columnWidth currentY) (doc, x)
                       (enumerate 0 cells));
          currentY = currentY + rowHeight
      in (if fst row + 1 < nRows then draw doc (LineSeg x currentY (x + totalWidth) currentY) else doc,
          currentY))"

definition renderTable :: "env \<Rightarrow> pdf_doc \<Rightarrow> string list \<Rightarrow> rat \<Rightarrow> rat \<Rightarrow> rat \<Rightarrow> rat \<Rightarrow> rat \<Rightarrow> FontSettings
    \<Rightarrow> pdf_doc \<times> rat" where
  "renderTable e doc tableText x y maxWidth pageH margin fontSettings =
     (let tableRows = filter isTableLine tableText
      in if length tableRows < 2 then (doc, y)
         else (let headerRow = tableRows ! 0;
                   separatorRow = tableRows ! 1;
                   contentRows = drop 2 tableRows;
                   columns = map trim (slice1m1 (split (CHR ''|'') headerRow));
                   totalWidth = maxWidth - 10;
                   columnWidth = totalWidth / of_nat (length columns);
                   currentY = y;
                   started = (if currentY + rowHeight * 2 > pageH - margin
                              then (addPage doc, margin) else (doc, currentY));
                   doc = fst started;
                   currentY = snd started;
                   doc = drawHeader fontSettings columns separatorRow x columnWidth currentY doc;
                   currentY = currentY + rowHeight;
                   doc = draw doc (LineSeg x currentY (x + totalWidth) currentY);
                   done = foldl (tableRow e fontSettings columns separatorRow (length contentRows)
                                   x totalWidth columnWidth pageH margin)
                            (doc, currentY) (enumerate 0 contentRows)
               in (fst done, snd done + 4)))"

text \<open>The decimal numeral of a list marker.\<close>

function showNat :: "nat \<Rightarrow> string" where
  "showNat n = (if n < 10 then [char_of (48 + n)] else showNat (n div 10) @ [char_of (48 + n mod 10)])"
  by pat_completeness auto
termination
  by (relation "measure id") auto

text \<open>The bullet U+2022 of the source, written in UTF-8.\<close>

definition bullet :: string where
  "bullet = [CHR 0xE2, CHR 0x80, CHR 0xA2]"

text \<open>The inner loop of \<^verbatim>\<open>renderList\<close>: one wrapped line of an item.\<close>

definition listLine :: "FontSettings \<Rightarrow> rat \<Rightarrow> rat \<Rightarrow> rat \<Rightarrow> pdf_doc \<times> rat \<Rightarrow> string \<Rightarrow> pdf_doc \<times> rat" where
  "listLine fontSettings textX pageH margin st textLine =
     (let broken = (if snd st + lineHeight > pageH - margin
                    then (setFont (addPage (fst st)) (bodyFont fontSettings) ''normal'', margin)
                    else st)
      in (draw (fst broken) (TextAt textLine textX (snd broken + 2)), snd broken + lineHeight))"

text \<open>The outer loop of \<^verbatim>\<open>renderList\<close>: one item with its marker.\<close>

definition listItem :: "env \<Rightarrow> FontSettings \<Rightarrow> bool \<Rightarrow> rat \<Rightarrow> rat \<Rightarrow> rat \<Rightarrow> rat \<Rightarrow> pdf_doc \<times> rat
    \<Rightarrow> nat \<times> string \<Rightarrow> pdf_doc \<times> rat" where
  "listItem e fontSettings isNumbered x maxWidth pageH margin st item =
     (let indent = 5;
          broken = (if snd st + lineHeight > pageH - margin
                    then (setFont (addPage (fst st)) (bodyFont fontSettings) ''normal'', margin)
                    else st);
          doc = fst broken;
          currentY = snd broken;
          marker = (if isNumbered then showNat (fst item + 1) @ ''.'' else bullet);
          markerWidth = getTextWidth e (font doc) (if isNumbered then marker @ '' '' else marker @ ''  '');
          doc = draw doc (TextAt marker x (currentY + 2));
          itemText = cleanMarkdown (trim (snd item));
          textLines = splitTextToSize e (font doc) itemText (maxWidth - markerWidth - indent)
      in foldl (listLine fontSettings (x + markerWidth + indent) pageH margin) (doc, currentY) textLines)"

definition renderList :: "env \<Rightarrow> pdf_doc \<Rightarrow> string list \<Rightarrow> rat \<Rightarrow> rat \<Rightarrow> rat \<Rightarrow> bool \<Rightarrow> rat \<Rightarrow> rat
    \<Rightarrow> FontSettings \<Rightarrow> pdf_doc \<times> rat" where
  "renderList e doc listItems x y maxWidth isNumbered pageH margin fontSettings =
     (let doc = setFontSize doc (bodyFontSize fontSettings);
          doc = setFont doc (bodyFont fontSettings) ''normal'';
          done = foldl (listItem e fontSettings isNumbered x maxWidth pageH margin) (doc, y)
                   (enumerate 0 listItems)
      in (fst done, snd done + 2))"

text \<open>The loop of \<^verbatim>\<open>renderCodeBlock\<close>: line \<open>i\<close> of \<open>n\<close>; on a page break the
  background is drawn again for the \<open>n - i\<close> lines that remain.\<close>

definition codeLine :: "nat \<Rightarrow> rat \<Rightarrow> rat \<Rightarrow> rat \<Rightarrow> rat \<Rightarrow> pdf_doc \<times> rat \<Rightarrow> nat \<times> string \<Rightarrow> pdf_doc \<times> rat" where
  "codeLine n x maxWidth pageH margin st codeLn =
     (let broken = (if snd st + lineHeight > pageH - margin
                    then (let doc = addPage (fst st);
                              currentY = margin;
                              remainingHeight = min (of_nat (n - fst codeLn) * lineHeight + 6)
                                                    (pageH - margin - currentY);
                              doc = draw doc (FilledRect x currentY maxWidth remainingHeight)
                          in (setFont doc ''courier'' ''normal'', currentY))
                    else st)
      in (draw (fst broken) (TextAt (snd codeLn) (x + 3) (snd broken + 5 + 2)), snd broken + lineHeight))"

definition renderCodeBlock :: "env \<Rightarrow> pdf_doc \<Rightarrow> string list \<Rightarrow> rat \<Rightarrow> rat \<Rightarrow> rat \<Rightarrow> rat \<Rightarrow> rat
    \<Rightarrow> FontSettings \<Rightarrow> pdf_doc \<times> rat" where
  "renderCodeBlock e doc codeLines x y maxWidth pageH margin fontSettings =
     (let currentY = y;
          started = (if currentY + lineHeight * of_nat (length codeLines) + 6 > pageH - margin
                     then (addPage doc, margin) else (doc, currentY));
          doc = fst started;
          currentY = snd started;
          blockHeight = min (of_nat (length codeLines) * lineHeight + 6) (pageH - margin - currentY);
          doc = draw doc (FilledRect x currentY maxWidth blockHeight);
          doc = setFontSize doc (smallFontSize fontSettings);
          doc = setFont doc ''courier'' ''normal'';
          done = foldl (codeLine (length codeLines) x maxWidth pageH margin) (doc, currentY)
                   (enumerate 0 codeLines)
      in (fst done, snd done + 2))"

text \<open>The inner loop of \<^verbatim>\<open>renderBlockquote\<close>; the state is the document, \<^verbatim>\<open>currentY\<close>
  and \<^verbatim>\<open>startY\<close>.\<close>

definition quoteLine :: "FontSettings \<Rightarrow> rat \<Rightarrow> rat \<Rightarrow> rat \<Rightarrow> pdf_doc \<times> rat \<times> rat \<Rightarrow> string
    \<Rightarrow> pdf_doc \<times> rat \<times> rat" where
  "quoteLine fontSettings x pageH margin st textLine =
     (let doc = fst st;
          currentY = fst (snd st);
          startY = snd (snd st);
          broken = (if currentY + lineHeight > pageH - margin
                    then (let doc = draw doc (LineSeg x startY x currentY);
                              doc = addPage doc
                          in (setFont doc (bodyFont fontSettings) ''normal'', margin, margin))
                    else (doc, currentY, startY));
          doc = fst broken;
          currentY = fst (snd broken);
          startY = snd (snd broken)
      in (draw doc (TextAt textLine (x + 5) (currentY + 2)), currentY + lineHeight, startY))"

definition quoteItem :: "env \<Rightarrow> FontSettings \<Rightarrow> rat \<Rightarrow> rat \<Rightarrow> rat \<Rightarrow> rat \<Rightarrow> pdf_doc \<times> rat \<times> rat \<Rightarrow> string
    \<Rightarrow> pdf_doc \<times> rat \<times> rat" where
  "quoteItem e fontSettings x maxWidth pageH margin st quoteLn =
     (let textLines = splitTextToSize e (font (fst st)) (cleanMarkdown (trim quoteLn)) (maxWidth - 5)
      in foldl (quoteLine fontSettings x pageH margin) st textLines)"

definition renderBlockquote :: "env \<Rightarrow> pdf_doc \<Rightarrow> string list \<Rightarrow> rat \<Rightarrow> rat \<Rightarrow> rat \<Rightarrow> rat \<Rightarrow> rat
    \<Rightarrow> FontSettings \<Rightarrow> pdf_doc \<times> rat" where
  "renderBlockquote e doc quoteLines x y maxWidth pageH margin fontSettings =
     (let started = (if y + lineHeight > pageH - margin then (addPage doc, margin, margin)
                     else (doc, y, y));
          doc = fst started;
          doc = setFontSize doc (bodyFontSize fontSettings);
          doc = setFont doc (bodyFont fontSettings) ''normal'';
          done = foldl (quoteItem e fontSettings x maxWidth pageH margin)
                   (doc, fst (snd started), snd (snd started)) quoteLines;
          doc = draw (fst done) (LineSeg x (snd (snd done)) x (fst (snd done)))
      in (doc, fst (snd done) + 2))"

text \<open>The page break of \<^verbatim>\<open>renderMarkdownContent\<close>: a new page, the body font, and the
  divider between the columns unless the section is the last one. \<open>sectionInfo\<close> is
  \<^verbatim>\<open>(currentSection, totalSections)\<close>.\<close>

definition breakPage :: "FontSettings \<Rightarrow> nat \<times> nat \<Rightarrow> rat \<Rightarrow> rat \<Rightarrow> rat \<Rightarrow> pdf_doc \<Rightarrow> pdf_doc" where
  "breakPage fontSettings sectionInfo pageH margin keyPointsWidth doc =
     (let doc = addPage doc;
          doc = setFontSize doc (bodyFontSize fontSettings);
          doc = setFont doc (bodyFont fontSettings) ''normal''
      in if int (fst sectionInfo) < int (snd sectionInfo) - 1
         then draw doc (LineSeg (margin + keyPointsWidth) margin (margin + keyPointsWidth) (pageH - margin))
         else doc)"

text \<open>The paragraph branch of \<^verbatim>\<open>renderMarkdownContent\<close>: the loop over the wrapped lines
  and the gap after them.\<close>

definition paragraphLine :: "FontSettings \<Rightarrow> nat \<times> nat \<Rightarrow> rat \<Rightarrow> rat \<Rightarrow> rat \<Rightarrow> rat \<Rightarrow> pdf_doc \<times> rat
    \<Rightarrow> string \<Rightarrow> pdf_doc \<times> rat" where
  "paragraphLine fontSettings sectionInfo x pageH margin keyPointsWidth st textLine =
     (let broken = (if snd st + lineHeight > pageH - margin
                    then (breakPage fontSettings sectionInfo pageH margin keyPointsWidth (fst st), margin)
                    else st)
      in (draw (fst broken) (TextAt textLine x (snd broken + 2)), snd broken + lineHeight))"

definition renderParagraph :: "env \<Rightarrow> pdf_doc \<Rightarrow> string \<Rightarrow> rat \<Rightarrow> rat \<Rightarrow> rat \<Rightarrow> rat \<Rightarrow> rat \<Rightarrow> rat
    \<Rightarrow> nat \<times> nat \<Rightarrow> FontSettings \<Rightarrow> pdf_doc \<times> rat" where
  "renderParagraph e doc line x y maxWidth pageH margin keyPointsWidth sectionInfo fontSettings =
     (let doc = setFontSize doc (bodyFontSize fontSettings);
          doc = setFont doc (bodyFont fontSettings) ''normal'';
          textLines = splitTextToSize e (font doc) (cleanMarkdown line) maxWidth;
          done = foldl (paragraphLine fontSettings sectionInfo x pageH margin keyPointsWidth)
                   (doc, y) textLines
      in (fst done, snd done + lineHeight * (1 / 10)))"

text \<open>The heading branch: \<^verbatim>\<open>level\<close> is \<^verbatim>\<open>line.trim().indexOf(" ")\<close>, which is \<open>-1\<close>
  when the white space after the hashes is not a space.\<close>

definition renderHeading :: "env \<Rightarrow> pdf_doc \<Rightarrow> string \<Rightarrow> rat \<Rightarrow> rat \<Rightarrow> rat \<Rightarrow> rat \<Rightarrow> rat
    \<Rightarrow> FontSettings \<Rightarrow> pdf_doc \<times> rat" where
  "renderHeading e doc line x y maxWidth pageH margin fontSettings =
     (let level = (case indexOf (trim line) '' '' of None \<Rightarrow> - 1 | Some k \<Rightarrow> int k);
          headingText = substring (trim line) (nat (level + 1));
          headingSize = max (titleFontSize fontSettings - (of_int level - 2) * 2)
                            (bodyFontSize fontSettings);
          doc = setFontSize doc headingSize;
          doc = setFont doc (titleFont fontSettings) ''bold'';
          textLines = splitTextToSize e (font doc) (cleanMarkdown headingText) maxWidth;
          started = (if y + of_nat (length textLines) * lineHeight + 2 > pageH - margin
                     then (setFont (addPage doc) (titleFont fontSettings) ''bold'', margin)
                     else (doc, y));
          doc = draw (fst started) (TextBlock textLines x (snd started + 2));
          doc = setFont doc (bodyFont fontSettings) ''normal'';
          doc = setFontSize doc (bodyFontSize fontSettings)
      in (doc, snd started + of_nat (length textLines) * lineHeight + 2))"

text \<open>The lines into which \<^verbatim>\<open>renderHeading\<close> wraps a heading line. It sets the size, the
  family and the style of the font before it measures the text, so the lines do not
  depend on the document.\<close>

definition headingLines :: "env \<Rightarrow> FontSettings \<Rightarrow> rat \<Rightarrow> string \<Rightarrow> string list" where
  "headingLines e fontSettings maxWidth line =
     (let level = (case indexOf (trim line) '' '' of None \<Rightarrow> - 1 | Some k \<Rightarrow> int k);
          headingText = substring (trim line) (nat (level + 1));
          headingSize = max (titleFontSize fontSettings - (of_int level - 2) * 2)
                            (bodyFontSize fontSettings);
          doc = setFontSize newDoc headingSize;
          doc = setFont doc (titleFont fontSettings) ''bold''
      in splitTextToSize e (font doc) (cleanMarkdown headingText) maxWidth)"

text \<open>The tests of \<^verbatim>\<open>renderMarkdownContent\<close> on a line: \<^verbatim>\<open>/^[-*]\s/\<close>, \<^verbatim>\<open>/^\d+\.\s/\<close>
  and \<^verbatim>\<open>/^#{2,6}\s/\<close> on the trimmed line, and the rest.\<close>

fun repN :: "nat \<Rightarrow> re \<Rightarrow> re" where
  "repN 0 r = Eps"
| "repN (Suc n) r = Seq r (repN n r)"

fun optN :: "nat \<Rightarrow> re \<Rightarrow> re" where
  "optN 0 r = Eps"
| "optN (Suc n) r = Opt (Seq r (optN n r))"

definition Rep :: "nat \<Rightarrow> nat \<Rightarrow> re \<Rightarrow> re" where
  "Rep lo hi r = Seq (repN lo r) (optN (hi - lo) r)"

definition isBulletLine :: "string \<Rightarrow> bool" where
  "isBulletLine l = test (seqs [Bol, Either (CHR ''-'') (CHR ''*''), Cls isSpace]) (trim l)"

definition isNumberedLine :: "string \<Rightarrow> bool" where
  "isNumberedLine l = test (seqs [Bol, Plus (Cls isDigit), Lit (CHR ''.''), Cls isSpace]) (trim l)"

definition isHeadingLine :: "string \<Rightarrow> bool" where
  "isHeadingLine l = test (seqs [Bol, Rep 2 6 (Lit (CHR ''#'')), Cls isSpace]) (trim l)"

definition isFence :: "string \<Rightarrow> bool" where
  "isFence l = startsWith (trim l) [CHR 0x60, CHR 0x60, CHR 0x60]"

definition isQuoteLine :: "string \<Rightarrow> bool" where
  "isQuoteLine l = startsWith (trim l) ''>''"

text \<open>\<^verbatim>\<open>l.substring(l.indexOf(c) + 1)\<close>: the whole line when \<open>c\<close> does not occur.\<close>

definition afterFirst :: "string \<Rightarrow> string \<Rightarrow> string" where
  "afterFirst c l = (case indexOf l c of None \<Rightarrow> l | Some k \<Rightarrow> substring l (k + 1))"

text \<open>The \<^verbatim>\<open>while\<close> loop of \<^verbatim>\<open>renderMarkdownContent\<close> over the lines that remain; the
  state is the document and \<^verbatim>\<open>currentY\<close>.\<close>

function renderLines :: "env \<Rightarrow> rat \<Rightarrow> rat \<Rightarrow> rat \<Rightarrow> rat \<Rightarrow> rat \<Rightarrow> nat \<times> nat \<Rightarrow> FontSettings
    \<Rightarrow> pdf_doc \<times> rat \<Rightarrow> string list \<Rightarrow> pdf_doc \<times> rat" where
  "renderLines e x maxWidth pageH margin keyPointsWidth sectionInfo fontSettings st [] = st"
| "renderLines e x maxWidth pageH margin keyPointsWidth sectionInfo fontSettings st (line # rest) =
     (let broken = (if snd st + lineHeight > pageH - margin
                    then (breakPage fontSettings sectionInfo pageH margin keyPointsWidth (fst st), margin)
                    else st);
          doc = fst broken;
          currentY = snd broken
      in if trim line = []
         then renderLines e x maxWidth pageH margin keyPointsWidth sectionInfo fontSettings
                (doc, currentY + lineHeight / 3) rest
         else if isTableLine line
         then renderLines e x maxWidth pageH margin keyPointsWidth sectionInfo fontSettings
                (renderTable e doc (line # takeWhile isTableLine rest) x currentY maxWidth pageH margin
                   fontSettings)
                (dropWhile isTableLine rest)
         else if isFence line
         then renderLines e x maxWidth pageH margin keyPointsWidth sectionInfo fontSettings
                (renderCodeBlock e doc (takeWhile (\<lambda>l. \<not> isFence l) rest) x currentY maxWidth pageH
                   margin fontSettings)
                (drop 1 (dropWhile (\<lambda>l. \<not> isFence l) rest))
         else if isQuoteLine line
         then renderLines e x maxWidth pageH margin keyPointsWidth sectionInfo fontSettings
                (renderBlockquote e doc (map (afterFirst ''>'') (line # takeWhile isQuoteLine rest))
                   x currentY maxWidth pageH margin fontSettings)
                (dropWhile isQuoteLine rest)
         else if isBulletLine line
         then renderLines e x maxWidth pageH margin keyPointsWidth sectionInfo fontSettings
                (renderList e doc (map (afterFirst '' '') (line # takeWhile isBulletLine rest))
                   x currentY maxWidth False pageH margin fontSettings)
                (dropWhile isBulletLine rest)
         else if isNumberedLine line
         then renderLines e x maxWidth pageH margin keyPointsWidth sectionInfo fontSettings
                (renderList e doc (map (afterFirst ''.'') (line # takeWhile isNumberedLine rest))
                   x currentY maxWidth True pageH margin fontSettings)
                (dropWhile isNumberedLine rest)
         else if isHeadingLine line
         then renderLines e x maxWidth pageH margin keyPointsWidth sectionInfo fontSettings
                (renderHeading e doc line x currentY maxWidth pageH margin fontSettings) rest
         else if includesStr line ''<img'' \<and> includesStr line ''src=''
         then renderLines e x maxWidth pageH margin keyPointsWidth sectionInfo fontSettings
                (doc, currentY) rest
         else if includesStr line ''!['' \<and> includesStr line ''](''
         then renderLines e x maxWidth pageH margin keyPointsWidth sectionInfo fontSettings
                (doc, currentY) rest
         else renderLines e x maxWidth pageH margin keyPointsWidth sectionInfo fontSettings
                (renderParagraph e doc line x currentY maxWidth pageH margin keyPointsWidth sectionInfo
                   fontSettings)
                rest)"
  by pat_completeness auto
termination
  by (relation "measure (\<lambda>(e, x, maxWidth, pageH, margin, keyPointsWidth, sectionInfo, fontSettings, st, lns). length lns)")
     (auto simp: length_dropWhile_le less_Suc_eq_le intro: le_trans[OF diff_le_self length_dropWhile_le])

definition renderMarkdownContent :: "env \<Rightarrow> pdf_doc \<Rightarrow> string \<Rightarrow> rat \<Rightarrow> rat \<Rightarrow> rat \<Rightarrow> rat \<Rightarrow> rat \<Rightarrow> rat
    \<Rightarrow> nat \<times> nat \<Rightarrow> FontSettings \<Rightarrow> pdf_doc \<times> rat" where
  "renderMarkdownContent e doc body x y maxWidth pageH margin keyPointsWidth sectionInfo fontSettings =
     renderLines e x maxWidth pageH margin keyPointsWidth sectionInfo fontSettings (doc, y)
       (split NL body)"

section \<open>Images in the PDF\<close>

text \<open>\<^verbatim>\<open>/<img.*?src=["'](.*?)["'].*?>/g\<close>\<close>

definition pdfImageRegex :: re where
  "pdfImageRegex =
     seqs [Str ''<img'', StarLazy Dot, Str ''src='', Either DQ SQ, Group 1 (StarLazy Dot),
           Either DQ SQ, StarLazy Dot, Lit (CHR ''>'')]"

text \<open>\<^verbatim>\<open>toUpperCase\<close> on the letters that have an upper case among the code units below
  256; the result is only compared with \<^verbatim>\<open>JPEG\<close>, \<^verbatim>\<open>JPG\<close> and \<^verbatim>\<open>PNG\<close>.\<close>

definition toUpperChar :: "char \<Rightarrow> char" where
  "toUpperChar c =
     (let n = (of_char c :: nat)
      in if (97 \<le> n \<and> n \<le> 122) \<or> (224 \<le> n \<and> n \<le> 254 \<and> n \<noteq> 247)
         then char_of (n - 32) else c)"

definition toUpperCase :: "string \<Rightarrow> string" where
  "toUpperCase s = map toUpperChar s"

text \<open>\<^verbatim>\<open>image.src.split(";")[0].split("/")[1].toUpperCase()\<close>: \<open>None\<close> when the second
  piece is \<^verbatim>\<open>undefined\<close> and the call raises a \<^verbatim>\<open>TypeError\<close>.\<close>

definition imageFormat :: "string \<Rightarrow> string option" where
  "imageFormat src =
     (case index (split (CHR ''/'') (hd (split (CHR '';'') src))) 1 of
        None \<Rightarrow> None
      | Some f \<Rightarrow> Some (toUpperCase f))"

text \<open>The \<^verbatim>\<open>onload\<close> handler: the image of intrinsic size \<open>dims\<close> is placed at the
  cursor, after a page break if it does not fit. When \<^verbatim>\<open>doc.addImage\<close> throws, the
  \<^verbatim>\<open>catch\<close> clause only logs: nothing is drawn and the cursor stays where the page-break
  check left it. With a size that is not finite the comparison of the page-break check
  is false, and if \<^verbatim>\<open>doc.addImage\<close> accepts the call the cursor is no finite number any
  more: the value is \<open>None\<close> then.\<close>

definition placeImage :: "env \<Rightarrow> string \<Rightarrow> string \<Rightarrow> nat \<times> nat \<Rightarrow> rat \<Rightarrow> rat \<Rightarrow> rat \<Rightarrow> rat \<Rightarrow> rat
    \<Rightarrow> nat \<times> nat \<Rightarrow> pdf_doc \<times> rat \<Rightarrow> (pdf_doc \<times> rat) option" where
  "placeImage e src validFormat dims x maxWidth pageH margin keyPointsWidth sectionInfo st =
     (let imageMargin = 4
      in case placedSize maxWidth dims of
           None \<Rightarrow> if addImageThrows e src validFormat x (snd st) None then Some st else None
         | Some final \<Rightarrow>
             (let finalWidth = fst final;
                  finalHeight = snd final;
                  broken = (if snd st + finalHeight + 10 > pageH - margin
                            then (let doc = addPage (fst st)
                                  in (if int (fst sectionInfo) < int (snd sectionInfo) - 1
                                      then draw doc (LineSeg (margin + keyPointsWidth) margin
                                                       (margin + keyPointsWidth) (pageH - margin))
                                      else doc,
                                      margin))
                            else st)
              in if addImageThrows e src validFormat x (snd broken) (Some final)
                 then Some broken
                 else Some (draw (fst broken)
                              (ImageAt src validFormat x (snd broken) finalWidth finalHeight),
                            snd broken + finalHeight + imageMargin)))"

text \<open>One iteration of the loop over \<^verbatim>\<open>imagesToAdd\<close>.\<close>

definition addImage :: "env \<Rightarrow> FontSettings \<Rightarrow> rat \<Rightarrow> rat \<Rightarrow> rat \<Rightarrow> rat \<Rightarrow> rat \<Rightarrow> nat \<times> nat
    \<Rightarrow> pdf_doc \<times> rat \<Rightarrow> string \<Rightarrow> (pdf_doc \<times> rat) option" where
  "addImage e fontSettings x maxWidth pageH margin keyPointsWidth sectionInfo st src0 =
     (let broken = (if snd st + maxImageHeight > pageH - margin
                    then (breakPage fontSettings sectionInfo pageH margin keyPointsWidth (fst st), margin)
                    else st)
      in if isPlaceholder src0 then Some broken
         else (case (if startsWith src0 ''cornell-image://''
                     then (case getImage e (replaceFirst src0 ''cornell-image://'' []) of
                             Stored imageData \<Rightarrow> if imageData \<noteq> [] then Some imageData else None
                           | Missing \<Rightarrow> None
                           | Rejected \<Rightarrow> None)
                     else Some src0) of
                 None \<Rightarrow> Some broken
               | Some src \<Rightarrow>
                   if startsWith src ''data:''
                   then (case imageFormat src of
                           None \<Rightarrow> Some broken
                         | Some format \<Rightarrow>
                             (let validFormat = (if format \<in> set [''JPEG'', ''JPG'', ''PNG'']
                                                 then format else ''JPEG'')
                              in case imageSize e src of
                                   None \<Rightarrow> Some broken
                                 | Some dims \<Rightarrow>
                                     placeImage e src validFormat dims x maxWidth pageH margin
                                       keyPointsWidth sectionInfo broken))
                   else Some broken))"

text \<open>The loop over \<^verbatim>\<open>imagesToAdd\<close>; \<open>None\<close> once the cursor is no finite number.\<close>

definition addImagesToPdf :: "env \<Rightarrow> pdf_doc \<Rightarrow> string \<Rightarrow> rat \<Rightarrow> rat \<Rightarrow> rat \<Rightarrow> rat \<Rightarrow> rat \<Rightarrow> rat
    \<Rightarrow> nat \<times> nat \<Rightarrow> FontSettings \<Rightarrow> (pdf_doc \<times> rat) option" where
  "addImagesToPdf e doc body x y maxWidth pageH margin keyPointsWidth sectionInfo fontSettings =
     (let imagesToAdd = filter (\<lambda>src. src \<noteq> [])
                          (map (\<lambda>m. case group m 1 of None \<Rightarrow> [] | Some g \<Rightarrow> g)
                             (execAll pdfImageRegex body))
      in if length imagesToAdd = 0 then Some (doc, y)
         else foldl (\<lambda>st src. case st of
                                 None \<Rightarrow> None
                               | Some s \<Rightarrow> addImage e fontSettings x maxWidth pageH margin
                                            keyPointsWidth sectionInfo s src)
                (Some (doc, y)) imagesToAdd)"

section \<open>The PDF exporter\<close>

record boundary =
  sectionIndex :: nat
  startY :: rat
  startPage :: nat
  endY :: rat
  endPage :: nat

text \<open>The state of the loop over the sections: the document, \<^verbatim>\<open>y\<close>,
  \<^verbatim>\<open>sectionBoundaries\<close> and \<^verbatim>\<open>continuationPages\<close>.\<close>

record export_state =
  pdf :: pdf_doc
  cursorY :: rat
  sectionBoundaries :: "boundary list"
  continuationPages :: "nat \<rightharpoonup> nat"

text \<open>The key-point heading drawn from \<open>topY\<close> on the current page.\<close>

definition drawKeyPoint :: "env \<Rightarrow> FontSettings \<Rightarrow> rat \<Rightarrow> rat \<Rightarrow> string \<Rightarrow> rat \<Rightarrow> pdf_doc \<Rightarrow> pdf_doc" where
  "drawKeyPoint e fontSettings margin keyPointsWidth title topY doc =
     (let doc = setFontSize doc (bodyFontSize fontSettings);
          doc = setFont doc (titleFont fontSettings) ''bold'';
          headingLines = splitTextToSize e (font doc) title (keyPointsWidth - 10)
      in foldl (\<lambda>d l. draw d (TextAt (snd l) (margin + 5) (topY + 5 + of_nat (fst l) * 6 + 2)))
           doc (enumerate 0 headingLines))"

text \<open>The divider of one section on one of its pages.\<close>

definition sectionDivider :: "rat \<Rightarrow> rat \<Rightarrow> rat \<Rightarrow> boundary \<Rightarrow> pdf_doc \<Rightarrow> nat \<Rightarrow> pdf_doc" where
  "sectionDivider pageH margin keyPointsWidth b doc pageNum =
     (let doc = setPage doc pageNum
      in if pageNum = startPage b
         then draw doc (LineSeg (margin + keyPointsWidth) (startY b) (margin + keyPointsWidth)
                          (if pageNum = endPage b then endY b else pageH - margin))
         else if pageNum = endPage b
         then draw doc (LineSeg (margin + keyPointsWidth) margin (margin + keyPointsWidth) (endY b))
         else draw doc (LineSeg (margin + keyPointsWidth) margin (margin + keyPointsWidth)
                          (pageH - margin)))"

text \<open>One iteration of the loop over the sections; \<open>None\<close> when the images of the
  section leave no finite cursor.\<close>

definition exportSection :: "env \<Rightarrow> FontSettings \<Rightarrow> rat \<Rightarrow> rat \<Rightarrow> rat \<Rightarrow> nat \<Rightarrow> export_state
    \<Rightarrow> nat \<times> Section \<Rightarrow> export_state option" where
  "exportSection e fontSettings margin keyPointsWidth contentWidth totalSections st sec =
     (if trim (content (snd sec)) = [] then Some st
      else (let pageH = pageHeight e;
                doc = pdf st;
                y = cursorY st;
                broken = (if y + 20 > pageH - margin then (addPage doc, margin + 8) else (doc, y));
                doc = fst broken;
                y = snd broken;
                doc = drawKeyPoint e fontSettings margin keyPointsWidth (heading (snd sec)) y doc;
                contentStartX = margin + keyPointsWidth + 5;
                contentStartY = y + 5;
                sectionInfo = (fst sec, totalSections);
                doc = setFontSize doc (bodyFontSize fontSettings);
                doc = setFont doc (bodyFont fontSettings) ''normal'';
                rendered = renderMarkdownContent e doc (content (snd sec)) contentStartX contentStartY
                             (contentWidth - 10) pageH margin keyPointsWidth sectionInfo fontSettings
            in case addImagesToPdf e (fst rendered) (content (snd sec)) contentStartX
                      (snd rendered + 3) (contentWidth - 10) pageH margin keyPointsWidth
                      sectionInfo fontSettings of
                 None \<Rightarrow> None
               | Some placed \<Rightarrow>
                   (let b = \<lparr>sectionIndex = fst sec, startY = y, startPage = page (fst broken),
                             endY = snd placed, endPage = page (fst placed)\<rparr>;
                        pageNums = [startPage b ..< Suc (endPage b)];
                        continued = foldl (\<lambda>m pageNum. if startPage b < pageNum
                                                         then m(pageNum \<mapsto> fst sec) else m)
                                      (continuationPages st) pageNums;
                        doc = foldl (sectionDivider pageH margin keyPointsWidth b) (fst placed)
                                pageNums;
                        doc = setPage doc (endPage b)
                    in Some \<lparr>pdf = doc, cursorY = snd placed + 1 / 2,
                             sectionBoundaries = sectionBoundaries st @ [b],
                             continuationPages = continued\<rparr>)))"

text \<open>The rule under a section that is not the last one drawn.\<close>

definition bottomLine :: "rat \<Rightarrow> rat \<Rightarrow> rat \<Rightarrow> nat \<Rightarrow> pdf_doc \<Rightarrow> nat \<times> boundary \<Rightarrow> pdf_doc" where
  "bottomLine margin keyPointsWidth contentWidth n doc b =
     (if fst b + 1 < n
      then draw (setPage doc (endPage (snd b)))
             (LineSeg margin (endY (snd b)) (margin + keyPointsWidth + contentWidth) (endY (snd b)))
      else doc)"

text \<open>The heading repeated on a page that continues a section.\<close>

definition continuationHeading :: "env \<Rightarrow> FontSettings \<Rightarrow> rat \<Rightarrow> rat \<Rightarrow> Section list \<Rightarrow> (nat \<rightharpoonup> nat)
    \<Rightarrow> pdf_doc \<Rightarrow> nat \<Rightarrow> pdf_doc" where
  "continuationHeading e fontSettings margin keyPointsWidth secs continued doc pageNum =
     (case continued pageNum of
        None \<Rightarrow> doc
      | Some sectionIndex' \<Rightarrow>
          drawKeyPoint e fontSettings margin keyPointsWidth (heading (secs ! sectionIndex')) margin
            (setPage doc pageNum))"

text \<open>One line of the Related Notes listing; the state is the document and
  \<^verbatim>\<open>currentY\<close>.\<close>

definition relatedLink :: "FontSettings \<Rightarrow> rat \<Rightarrow> rat \<Rightarrow> pdf_doc \<times> rat \<Rightarrow> string \<Rightarrow> pdf_doc \<times> rat" where
  "relatedLink fontSettings pageH margin st link =
     (let broken = (if snd st + 6 > pageH - margin
                    then (setFont (addPage (fst st)) (bodyFont fontSettings) ''normal'', margin)
                    else st)
      in (draw (fst broken) (TextAt (bullet @ '' '' @ link) (margin + 5) (snd broken)), snd broken + 6))"

definition relatedNotes :: "FontSettings \<Rightarrow> rat \<Rightarrow> rat \<Rightarrow> string list \<Rightarrow> rat \<Rightarrow> pdf_doc \<Rightarrow> pdf_doc" where
  "relatedNotes fontSettings pageH margin noteLinks y doc =
     (if 0 < length noteLinks
      then (let doc = setPage doc (pages doc);
                currentY = y + 20;
                estimatedHeight = 20 + of_nat (length noteLinks) * 6;
                broken = (if currentY + estimatedHeight > pageH - margin
                          then (addPage doc, margin + 10) else (doc, currentY));
                doc = setFontSize (fst broken) (titleFontSize fontSettings);
                doc = setFont doc (titleFont fontSettings) ''bold'';
                doc = draw doc (TextAt ''Related Notes'' margin (snd broken));
                currentY = snd broken + 8 + 2;
                doc = setFontSize doc (bodyFontSize fontSettings);
                doc = setFont doc (bodyFont fontSettings) ''normal''
            in fst (foldl (relatedLink fontSettings pageH margin) (doc, currentY) noteLinks))
      else doc)"

record pdf_download =
  pdfName :: string
  document :: pdf_doc

text \<open>The head of the first page: the title, the summary if there is one, and the rule
  under them; the value is the document and \<^verbatim>\<open>y\<close> for the first section.\<close>

definition pdfHeader :: "env \<Rightarrow> FontSettings \<Rightarrow> rat \<Rightarrow> rat \<Rightarrow> rat \<Rightarrow> string \<Rightarrow> string \<Rightarrow> pdf_doc \<times> rat" where
  "pdfHeader e fontSettings margin keyPointsWidth contentWidth title summary =
     (let doc = newDoc;
          doc = setFontSize doc 24;
          doc = setFont doc (titleFont fontSettings) ''bold'';
          doc = draw doc (TextAt title 15 20);
          y = 30;
          header = (if summary \<noteq> []
                    then (let doc = setFontSize doc (bodyFontSize fontSettings);
                              doc = setFont doc (bodyFont fontSettings) ''normal'';
                              summaryLineHeight = 6;
                              summaryLines = splitTextToSize e (font doc) summary 180;
                              doc = foldl (\<lambda>d l. draw d (TextAt (snd l) 15
                                                           (y + of_nat (fst l) * summaryLineHeight + 2)))
                                      doc (enumerate 0 summaryLines)
                          in (doc, y + of_nat (length summaryLines) * summaryLineHeight + 6))
                    else (doc, 35));
          doc = draw (fst header)
                  (LineSeg margin (snd header + 2) (margin + keyPointsWidth + contentWidth) (snd header + 2))
      in (doc, snd header + 8))"

text \<open>\<^verbatim>\<open>exportToPdf\<close>. Its \<^verbatim>\<open>try\<close> block contains no \<^verbatim>\<open>throw\<close>: the \<^verbatim>\<open>catch\<close> clause
  only wraps failures of the libraries, so a value \<open>Some d\<close> is the download handed to
  \<^verbatim>\<open>downloadBlob\<close>. The value is \<open>None\<close> when an image has left a cursor that is no finite
  number: the layout after it is not described here.\<close>

definition exportToPdf :: "env \<Rightarrow> string \<Rightarrow> string \<Rightarrow> string \<Rightarrow> font_choice \<Rightarrow> pdf_download option" where
  "exportToPdf e title summary markdown fontChoice =
     (let processedMarkdown = processContentForExport (loadImages e) markdown;
          secs = parseMarkdown processedMarkdown;
          noteLinks = extractNoteLinks markdown;
          pageH = pageHeight e;
          margin = 15;
          keyPointsWidth = 45;
          contentWidth = pageWidth e - margin - keyPointsWidth - margin;
          fontSettings = getFontSettings fontChoice;
          header = pdfHeader e fontSettings margin keyPointsWidth contentWidth title summary
      in case foldl (\<lambda>st sec. case st of
                                None \<Rightarrow> None
                              | Some s \<Rightarrow> exportSection e fontSettings margin keyPointsWidth
                                           contentWidth (length secs) s sec)
                (Some \<lparr>pdf = fst header, cursorY = snd header, sectionBoundaries = [],
                       continuationPages = Map.empty\<rparr>)
                (enumerate 0 secs) of
           None \<Rightarrow> None
         | Some st \<Rightarrow>
             (let doc = foldl (bottomLine margin keyPointsWidth contentWidth
                                 (length (sectionBoundaries st)))
                          (pdf st) (enumerate 0 (sectionBoundaries st));
                  doc = foldl (continuationHeading e fontSettings margin keyPointsWidth secs
                                 (continuationPages st))
                          doc [1 ..< Suc (pages doc)];
                  doc = relatedNotes fontSettings pageH margin noteLinks (cursorY st) doc
              in Some \<lparr>pdfName = pdfFilename title, document = doc\<rparr>))"

section \<open>A sample environment\<close>

text \<open>An empty image store, no wrapping (every text is one line), two units of width per
  character, an A4 page, images of 100 by 50 that jsPDF accepts, and a \<^verbatim>\<open>fetch\<close> that
  succeeds.\<close>

definition sampleEnv :: env where
  "sampleEnv =
     \<lparr>getImage = (\<lambda>i. Missing), imageKey = (\<lambda>n. ''img_0_'' @ showNat n),
      formatMarkdown = (\<lambda>s. s), loadImages = (\<lambda>s. s),
      splitTextToSize = (\<lambda>f s w. [s]), getTextWidth = (\<lambda>f s. of_nat (length s) * 2),
      pageWidth = 210, pageHeight = 297, imageSize = (\<lambda>s. Some (100, 50)),
      addImageThrows = (\<lambda>src format x y final. False),
      fetchBlob = (\<lambda>s. Some s)\<rparr>"

text \<open>A data URL of a PNG image of one pixel.\<close>

definition samplePng :: string where
  "samplePng =
     ''data:image/png;base64,iVBORw0KGgoAAAANSUhEUgAAAAEAAAABCAYAAAAfFcSJAAAADUlEQVR42mNkYPhfDwAChwGA60e6kgAAAABJRU5ErkJggg==''"

section \<open>The printable area\<close>


section \<open>Helper lemmas on strings\<close>

lemma split_nonempty: "split c s \<noteq> []"
  by (induction s) (auto split: list.splits)




section \<open>The section splitter drops the preamble\<close>

lemma foldl_preamble:
  "\<forall>l\<in>set pre. \<not> startsWith l ''# '' \<Longrightarrow>
   foldl parseLine st pre = st\<lparr>currentContent := currentContent st @ pre\<rparr>"
  by (induction pre arbitrary: st) (auto simp: parseLine_def)

lemma parseLine_heading_drops:
  "startsWith h ''# '' \<Longrightarrow>
   parseLine \<lparr>currentHeading = [], currentContent = c, sections = ss\<rparr> h =
   parseLine \<lparr>currentHeading = [], currentContent = [], sections = ss\<rparr> h"
  by (simp add: parseLine_def pushSection_def)

lemma parseLines_preamble:
  assumes "\<forall>l\<in>set pre. \<not> startsWith l ''# ''"
    and "rest = [] \<or> startsWith (hd rest) ''# ''"
  shows "parseLines (pre @ rest) = parseLines rest"
proof (cases rest)
  case Nil
  then show ?thesis using assms(1)
    by (simp add: parseLines_def foldl_preamble pushSection_def)
next
  case (Cons h t)
  then have "startsWith h ''# ''" using assms(2) by simp
  then show ?thesis using assms(1) Cons
    by (simp add: parseLines_def foldl_preamble parseLine_heading_drops[of h pre])
qed

lemma parseLines_blank: "parseLines [[]] = []" "parseLines [] = []"
  by (simp_all add: parseLines_def parseLine_def pushSection_def startsWith_def)



section \<open>Column alignment in both exporters\<close>

lemma trim_Nil: "trim [] = []"
  by (simp add: trim_def)

lemma pdfCellAlign_default: "pdfCellAlign ''---'' = ''left''" "pdfCellAlign [] = ''left''"
  by (simp_all add: pdfCellAlign_def trim_def isSpace_def startsWith_def endsWith_def)

lemma pdf_anki_cell: "pdfCellAlign cell = ankiCellAlignment cell"
  by (simp add: pdfCellAlign_def ankiCellAlignment_def Let_def)

lemma ankiCellAlignment_nonempty: "ankiCellAlignment cell \<noteq> []"
  by (simp add: ankiCellAlignment_def Let_def)

text \<open>
  C7. For every separator row and every column, \<^verbatim>\<open>renderTable\<close> (PDF) and
  \<^verbatim>\<open>convertTableToHtml\<close> (flashcards) derive the same alignment; where the row has a
  cell for the column, the alignment is \<^verbatim>\<open>center\<close> if the trimmed cell starts and ends
  with a colon, otherwise \<^verbatim>\<open>right\<close> if it ends with a colon, otherwise \<^verbatim>\<open>left\<close>.
\<close>

theorem table_alignment_agrees:
  "pdfTextAlign separatorRow i = ankiAlign separatorRow i \<and>
   (\<forall>cell. index (slice1m1 (split (CHR ''|'') separatorRow)) i = Some cell \<longrightarrow>
      ankiAlign separatorRow i =
        (if startsWith (trim cell) '':'' \<and> endsWith (trim cell) '':'' then ''center''
         else if endsWith (trim cell) '':'' then ''right''
         else ''left''))"
proof -
  let ?cells = "slice1m1 (split (CHR ''|'') separatorRow)"
  show ?thesis
  proof (cases "i < length ?cells")
    case False
    then show ?thesis
      by (simp add: pdfTextAlign_def ankiAlign_def ankiAlignments_def index_def
          pdfCellAlign_default)
  next
    case True
    then have a: "ankiAlign separatorRow i = ankiCellAlignment (?cells ! i)"
      by (simp add: ankiAlign_def ankiAlignments_def index_def ankiCellAlignment_nonempty)
    have p: "pdfTextAlign separatorRow i = pdfCellAlign (?cells ! i)"
      using True
      by (cases "?cells ! i = []")
         (simp_all add: pdfTextAlign_def index_def pdfCellAlign_default)
    show ?thesis using True a p
      by (simp add: pdf_anki_cell index_def) (simp add: ankiCellAlignment_def Let_def)
  qed
qed

theorem table_alignment_agrees_witness:
  "pdfTextAlign ''| :---: | ---: |'' 0 = ''center'' \<and> ankiAlign ''| :---: | ---: |'' 0 = ''center'' \<and>
   pdfTextAlign ''| :---: | ---: |'' 1 = ''right'' \<and> ankiAlign ''| :---: | ---: |'' 1 = ''right''"
proof -
  let ?row = "''| :---: | ---: |''"
  have c0: "index (slice1m1 (split (CHR ''|'') ?row)) 0 = Some '' :---: ''"
    by (simp add: slice1m1_def index_def)
  have c1: "index (slice1m1 (split (CHR ''|'') ?row)) 1 = Some '' ---: ''"
    by (simp add: slice1m1_def index_def)
  have t: "trim '' :---: '' = '':---:''" "trim '' ---: '' = ''---:''"
    by (simp_all add: trim_def isSpace_def)
  have "ankiAlign ?row 0 =
      (if startsWith (trim '' :---: '') '':'' \<and> endsWith (trim '' :---: '') '':'' then ''center''
       else if endsWith (trim '' :---: '') '':'' then ''right'' else ''left'')"
    using table_alignment_agrees[of ?row 0] c0 by blast
  then have a0: "ankiAlign ?row 0 = ''center''"
    unfolding t by (simp add: startsWith_def endsWith_def)
  have "ankiAlign ?row 1 =
      (if startsWith (trim '' ---: '') '':'' \<and> endsWith (trim '' ---: '') '':'' then ''center''
       else if endsWith (trim '' ---: '') '':'' then ''right'' else ''left'')"
    using table_alignment_agrees[of ?row 1] c1 by blast
  then have a1: "ankiAlign ?row 1 = ''right''"
    unfolding t by (simp add: startsWith_def endsWith_def)
  show ?thesis
    using a0 a1 table_alignment_agrees[of ?row 0] table_alignment_agrees[of ?row 1] by metis
qed

section \<open>Download filenames\<close>

lemma replaceSpaceRuns_word:
  "\<forall>c\<in>set w. \<not> isSpace c \<Longrightarrow> replaceSpaceRuns (w @ r) = w @ replaceSpaceRuns r"
  by (induction w) auto

lemma dropWhile_run:
  "\<forall>c\<in>set s. P c \<Longrightarrow> r = [] \<or> \<not> P (hd r) \<Longrightarrow> dropWhile P (s @ r) = r"
  by (induction s) (cases r; auto)+

lemma replaceSpaceRuns_run:
  assumes "s \<noteq> []" "\<forall>c\<in>set s. isSpace c" "r = [] \<or> \<not> isSpace (hd r)"
  shows "replaceSpaceRuns (s @ r) = CHR ''-'' # replaceSpaceRuns r"
proof -
  obtain c cs where s: "s = c # cs" using assms(1) by (cases s) auto
  then have "dropWhile isSpace (cs @ r) = r"
    using assms(2,3) by (intro dropWhile_run) auto
  then show ?thesis using s assms(2) by simp
qed

lemma toLowerCase_append: "toLowerCase (a @ b) = toLowerCase a @ toLowerCase b"
  by (simp add: toLowerCase_def)

lemma toLowerChar_hyphen: "toLowerChar (CHR ''-'') = CHR ''-''"
  by (simp add: toLowerChar_def)

text \<open>
  C6 (as the code has it). The PDF filename is the title with every maximal run of white
  space replaced by one hyphen (all other characters, punctuation included, are kept),
  lowercased, followed by \<^verbatim>\<open>.pdf\<close>: a title without white space is only lowercased, and
  a word followed by a run of white space contributes the lowercased word and one hyphen.
  The flashcard archive name is the title with every single character outside
  \<^verbatim>\<open>[A-Za-z0-9]\<close> replaced by a hyphen, lowercased, followed by
  \<^verbatim>\<open>-anki-flashcards.zip\<close>.
\<close>

theorem export_filenames:
  assumes "\<forall>c\<in>set w. \<not> isSpace c" and "s \<noteq> []" and "\<forall>c\<in>set s. isSpace c"
    and "r = [] \<or> \<not> isSpace (hd r)"
  shows "pdfFilename w = toLowerCase w @ ''.pdf''
    \<and> pdfFilename (w @ s @ r) = toLowerCase w @ ''-'' @ pdfFilename r
    \<and> ankiZipFilename title =
        map (\<lambda>c. if isAlnum c then toLowerChar c else CHR ''-'') title @ ''-anki-flashcards.zip''"
proof -
  have 1: "pdfFilename w = toLowerCase w @ ''.pdf''"
    using replaceSpaceRuns_word[OF assms(1), of "[]"] by (simp add: pdfFilename_def)
  have 2: "pdfFilename (w @ s @ r) = toLowerCase w @ ''-'' @ pdfFilename r"
    using replaceSpaceRuns_word[OF assms(1), of "s @ r"] replaceSpaceRuns_run[OF assms(2,3,4)]
    by (simp add: pdfFilename_def toLowerCase_def toLowerChar_hyphen)
  have 3: "ankiZipFilename title =
        map (\<lambda>c. if isAlnum c then toLowerChar c else CHR ''-'') title @ ''-anki-flashcards.zip''"
    by (simp add: ankiZipFilename_def toLowerCase_def replaceNonAlnum_def toLowerChar_hyphen
        comp_def if_distrib cong: if_cong)
  show ?thesis using 1 2 3 by simp
qed


theorem export_filenames_witness:
  "pdfFilename ''My'' = ''my.pdf'' \<and> pdfFilename (''My'' @ ''  '' @ ''C.v'') = ''my-c.v.pdf''
   \<and> ankiZipFilename ''My  C.v'' = ''my--c-v-anki-flashcards.zip''"
proof -
  have a: "\<forall>c\<in>set ''My''. \<not> isSpace c" by (simp add: isSpace_def)
  have b: "''  '' \<noteq> []" by simp
  have c: "\<forall>c\<in>set ''  ''. isSpace c" by (simp add: isSpace_def)
  have d: "''C.v'' = [] \<or> \<not> isSpace (hd ''C.v'')" by (simp add: isSpace_def)
  have e: "pdfFilename ''C.v'' = ''c.v.pdf''"
    by code_simp
  have f: "toLowerCase ''My'' = ''my''"
    by code_simp
  have g: "map (\<lambda>c. if isAlnum c then toLowerChar c else CHR ''-'') ''My  C.v'' = ''my--c-v''"
    by code_simp
  show ?thesis
    using export_filenames[OF a b c d, of "''My  C.v''"] e f g by simp
qed

text \<open>
  The title \<^verbatim>\<open>My  C.v\<close>: the PDF name keeps the dot, and the archive name has one hyphen per
  replaced character; neither is the name with runs of non-alphanumeric characters
  replaced by single hyphens.
\<close>

theorem export_filenames_counterexample:
  "pdfFilename ''My  C.v'' = ''my-c.v.pdf''
   \<and> pdfFilename ''My  C.v'' \<noteq> specFilename ''My  C.v'' ''.pdf''
   \<and> ankiZipFilename ''My  C.v'' = ''my--c-v-anki-flashcards.zip''
   \<and> ankiZipFilename ''My  C.v'' \<noteq> specFilename ''My  C.v'' ''-anki-flashcards.zip''"
  by code_simp

section \<open>Flashcards: the number of cards\<close>

text \<open>
  C1. The body of the specification's own scenario has two sections with content, A and
  B, and the summary is empty, so two cards with the fronts A and B are claimed. The
  \<^verbatim>\<open>for\<close> loop of \<^verbatim>\<open>parseNotesToFlashcards\<close> starts from the heading and content that
  the \<^verbatim>\<open>forEach\<close> loop before it left behind (those of the last section), so the first
  heading line pushes a card for section B: three cards come out, B, A, B. A body with
  the single section A gives two cards.
\<close>

theorem flashcards_last_section_twice:
  "map_option (map front)
     (parseNotesToFlashcards e ''T'' [] (join [NL] [''# A'', ''Hello'', [], ''# B'', ''- one'', ''- two'']))
     = Some [''B'', ''A'', ''B'']
   \<and> length (filter (\<lambda>s. trim (content s) \<noteq> [])
        (parseMarkdown (join [NL] [''# A'', ''Hello'', [], ''# B'', ''- one'', ''- two'']))) = 2
   \<and> map_option (map front) (parseNotesToFlashcards e ''T'' [] (join [NL] [''# A'', ''Hello'']))
     = Some [''A'', ''A'']"
  by code_simp

section \<open>Flashcards: markdown images\<close>

text \<open>
  C4. A markdown image with a data URL is left as it is by \<^verbatim>\<open>processImagesForAnki\<close> and
  nothing is collected: the expression for markdown images only matches a token
  \<^verbatim>\<open>![alt]\<close> that ends the text, and its loop runs after the loop for \<^verbatim>\<open>img\<close> tags, so
  even then the new tag gets no file name and no entry in the image map. The same image
  written as an \<^verbatim>\<open>img\<close> tag is collected under a generated file name.
\<close>

theorem markdown_image_not_collected:
  "processImagesForAnki e ''![cat](data:image/png;base64,AAAA)''
     = Some (''![cat](data:image/png;base64,AAAA)'', [])
   \<and> processImagesForAnki e ''see ![cat]''
     = Some (''see <img src='' @ [DQ, DQ] @ '' alt='' @ [DQ] @ ''cat'' @ [DQ] @ ''>'', [])
   \<and> map_option snd (processImagesForAnki sampleEnv
        (''<img src='' @ [DQ] @ ''data:image/png;base64,AAAA'' @ [DQ] @ '' alt='' @ [DQ] @ ''cat'' @ [DQ] @ ''>''))
     = Some [(''img_0_0.png'', ''data:image/png;base64,AAAA'')]"
  by code_simp

section \<open>PDF: a single pipe-bounded line\<close>

text \<open>
  C3. A section body that is one pipe-bounded line: \<^verbatim>\<open>renderMarkdownContent\<close> takes the
  line as a table run, \<^verbatim>\<open>renderTable\<close> returns at once because the run has fewer than
  two rows, and the loop goes on after the run. Nothing is drawn and the cursor does not
  move, while the same words without the bounding pipes are drawn as a paragraph.
\<close>

theorem single_pipe_line_not_drawn:
  "renderMarkdownContent e newDoc ''| a | b |'' 65 48 125 297 15 45 (0, 1) (getFontSettings Sans)
     = (newDoc, 48)
   \<and> map snd (drawn (fst (renderMarkdownContent sampleEnv newDoc ''a | b'' 65 48 125 297 15 45 (0, 1)
        (getFontSettings Sans)))) = [TextAt ''a | b'' 65 50]"
  by code_simp

section \<open>Note links in the PDF body\<close>

lemma takeWhile_until: "c \<notin> set t \<Longrightarrow> takeWhile (\<lambda>x. x \<noteq> c) (t @ c # r) = t"
  by (induction t) auto

lemma dropWhile_until: "c \<notin> set t \<Longrightarrow> dropWhile (\<lambda>x. x \<noteq> c) (t @ c # r) = c # r"
  by (induction t) auto

lemma matchNoteLink_Some:
  "matchNoteLink s = Some (t, r) \<longleftrightarrow>
     (s = ''[['' @ t @ '']]'' @ r \<and> t \<noteq> [] \<and> CHR '']'' \<notin> set t)"
proof
  assume m: "matchNoteLink s = Some (t, r)"
  then have s: "startsWith s ''[[''"
    by (auto simp: matchNoteLink_def split: if_splits)
  then have s2: "s = ''[['' @ drop 2 s"
    by (cases s; cases "tl s") (auto simp: startsWith_def)
  let ?b = "drop 2 s"
  from m s have t: "t = takeWhile (\<lambda>c. c \<noteq> CHR '']'') ?b" and ne: "t \<noteq> []"
    and d: "startsWith (dropWhile (\<lambda>c. c \<noteq> CHR '']'') ?b) '']]''"
    and r: "r = drop 2 (dropWhile (\<lambda>c. c \<noteq> CHR '']'') ?b)"
    by (auto simp: matchNoteLink_def Let_def split: if_splits)
  from d have d2: "dropWhile (\<lambda>c. c \<noteq> CHR '']'') ?b = '']]'' @ r"
    unfolding r
    by (cases "dropWhile (\<lambda>c. c \<noteq> CHR '']'') ?b"; cases "tl (dropWhile (\<lambda>c. c \<noteq> CHR '']'') ?b)")
       (auto simp: startsWith_def)
  have "?b = t @ '']]'' @ r"
    using takeWhile_dropWhile_id[of "\<lambda>c. c \<noteq> CHR '']''" ?b] t d2 by simp
  moreover have "CHR '']'' \<notin> set t"
    unfolding t by (auto dest: set_takeWhileD)
  ultimately show "s = ''[['' @ t @ '']]'' @ r \<and> t \<noteq> [] \<and> CHR '']'' \<notin> set t"
    using s2 ne by simp
next
  assume a: "s = ''[['' @ t @ '']]'' @ r \<and> t \<noteq> [] \<and> CHR '']'' \<notin> set t"
  then have "takeWhile (\<lambda>c. c \<noteq> CHR '']'') (t @ '']]'' @ r) = t"
    and "dropWhile (\<lambda>c. c \<noteq> CHR '']'') (t @ '']]'' @ r) = '']]'' @ r"
    by (simp_all add: takeWhile_until dropWhile_until)
  then show "matchNoteLink s = Some (t, r)"
    using a by (simp add: matchNoteLink_def startsWith_def Let_def)
qed

lemma matchNoteLink_no_bracket: "c \<noteq> CHR ''['' \<Longrightarrow> matchNoteLink (c # cs) = None"
  by (simp add: matchNoteLink_def startsWith_def)

lemma noteLinkMatches_plain:
  "CHR ''['' \<notin> set s \<Longrightarrow> noteLinkMatches (s @ r) = noteLinkMatches r"
  by (induction s) (auto simp: matchNoteLink_no_bracket)

lemma pieces_source: "concat (map pieceSource (linkPieces s)) = s"
  by (induction s rule: linkPieces.induct) (auto simp: matchNoteLink_Some split: option.splits)

lemma replace_pieces: "replaceNoteLinks s = concat (map pieceText (linkPieces s))"
  by (induction s rule: linkPieces.induct) (auto split: option.splits)

lemma matches_pieces: "noteLinkMatches s = linkTitles (linkPieces s)"
  by (induction s rule: linkPieces.induct) (auto split: option.splits)

text \<open>The text goes on with a non-empty run without \<^verbatim>\<open>]\<close> and then \<^verbatim>\<open>]]\<close>: what a match
  needs after its two opening brackets.\<close>

lemma match_after_brackets:
  "matchNoteLink (''[['' @ w) \<noteq> None \<longleftrightarrow>
     (takeWhile (\<lambda>c. c \<noteq> CHR '']'') w \<noteq> [] \<and> startsWith (dropWhile (\<lambda>c. c \<noteq> CHR '']'') w) '']]'')"
  by (simp add: matchNoteLink_def startsWith_def Let_def)

lemma replace_head_closing:
  "replaceNoteLinks s = CHR '']'' # v \<Longrightarrow> \<exists>cs. s = CHR '']'' # cs \<and> v = replaceNoteLinks cs"
proof (cases s)
  assume r: "replaceNoteLinks s = CHR '']'' # v"
  case Nil
  then show ?thesis using r by simp
next
  assume r: "replaceNoteLinks s = CHR '']'' # v"
  case (Cons c cs)
  show ?thesis
  proof (cases "matchNoteLink (c # cs)")
    case None
    then show ?thesis using r Cons by simp
  next
    case (Some p)
    obtain t rest where p: "p = (t, rest)" by (cases p)
    then have "t \<noteq> []" "CHR '']'' \<notin> set t" using Some by (simp_all add: matchNoteLink_Some)
    moreover have "t @ replaceNoteLinks rest = CHR '']'' # v" using r Cons Some p by simp
    ultimately show ?thesis by (cases t) auto
  qed
qed

lemma replace_head_opening:
  assumes "\<forall>t. NoteLink t \<in> set (linkPieces s) \<longrightarrow> CHR ''['' \<notin> set t"
    and "replaceNoteLinks s = CHR ''['' # v"
  shows "\<exists>cs. s = CHR ''['' # cs \<and> matchNoteLink s = None \<and> v = replaceNoteLinks cs"
proof (cases s)
  case Nil
  then show ?thesis using assms(2) by simp
next
  case (Cons c cs)
  show ?thesis
  proof (cases "matchNoteLink (c # cs)")
    case None
    then show ?thesis using assms(2) Cons by simp
  next
    case (Some p)
    obtain t rest where p: "p = (t, rest)" by (cases p)
    then have "t \<noteq> []" using Some by (simp add: matchNoteLink_Some)
    moreover have "CHR ''['' \<notin> set t" using assms(1) Cons Some p by simp
    moreover have "t @ replaceNoteLinks rest = CHR ''['' # v" using assms(2) Cons Some p by simp
    ultimately show ?thesis by (cases t) auto
  qed
qed

lemma run_then_closing_reflects:
  "takeWhile (\<lambda>c. c \<noteq> CHR '']'') (replaceNoteLinks s) \<noteq> [] \<Longrightarrow>
   startsWith (dropWhile (\<lambda>c. c \<noteq> CHR '']'') (replaceNoteLinks s)) '']]'' \<Longrightarrow>
   takeWhile (\<lambda>c. c \<noteq> CHR '']'') s \<noteq> [] \<and> startsWith (dropWhile (\<lambda>c. c \<noteq> CHR '']'') s) '']]''"
proof (induction s rule: replaceNoteLinks.induct)
  case 1
  then show ?case by simp
next
  case (2 c cs)
  show ?case
  proof (cases "matchNoteLink (c # cs)")
    case (Some p)
    obtain t rest where p: "p = (t, rest)" by (cases p)
    then have s: "c # cs = ''[['' @ t @ '']]'' @ rest" and t: "CHR '']'' \<notin> set t"
      using Some by (simp_all add: matchNoteLink_Some)
    have "takeWhile (\<lambda>c. c \<noteq> CHR '']'') (''[['' @ t @ '']]'' @ rest) = ''[['' @ t"
      and "dropWhile (\<lambda>c. c \<noteq> CHR '']'') (''[['' @ t @ '']]'' @ rest) = '']]'' @ rest"
      using t by (simp_all add: takeWhile_until dropWhile_until)
    then show ?thesis unfolding s by (simp add: startsWith_def)
  next
    case None
    then have r: "replaceNoteLinks (c # cs) = c # replaceNoteLinks cs" by simp
    from "2.prems"(1) r have c: "c \<noteq> CHR '']''" by (auto split: if_splits)
    show ?thesis
    proof (cases "takeWhile (\<lambda>c. c \<noteq> CHR '']'') (replaceNoteLinks cs) = []")
      case False
      moreover have "startsWith (dropWhile (\<lambda>c. c \<noteq> CHR '']'') (replaceNoteLinks cs)) '']]''"
        using "2.prems"(2) r c by simp
      ultimately show ?thesis using "2.IH"(1)[OF None] c by simp
    next
      case True
      then have "dropWhile (\<lambda>c. c \<noteq> CHR '']'') (replaceNoteLinks cs) = replaceNoteLinks cs"
        by (metis append_Nil takeWhile_dropWhile_id)
      then have "startsWith (replaceNoteLinks cs) '']]''"
        using "2.prems"(2) r c by simp
      then obtain v where v: "replaceNoteLinks cs = CHR '']'' # CHR '']'' # v"
        by (cases "replaceNoteLinks cs"; cases "tl (replaceNoteLinks cs)") (auto simp: startsWith_def)
      from replace_head_closing[OF v] obtain cs1
        where 1: "cs = CHR '']'' # cs1" "CHR '']'' # v = replaceNoteLinks cs1" by auto
      from replace_head_closing[OF 1(2)[symmetric]] obtain cs2
        where 2: "cs1 = CHR '']'' # cs2" by auto
      show ?thesis using c 1(1) 2 by (simp add: startsWith_def)
    qed
  qed
qed

lemma no_link_left:
  "\<forall>t. NoteLink t \<in> set (linkPieces s) \<longrightarrow> CHR ''['' \<notin> set t \<Longrightarrow>
   noteLinkMatches (replaceNoteLinks s) = []"
proof (induction s rule: replaceNoteLinks.induct)
  case 1
  then show ?case by simp
next
  case (2 c cs)
  show ?case
  proof (cases "matchNoteLink (c # cs)")
    case (Some p)
    obtain t rest where p: "p = (t, rest)" by (cases p)
    have t: "CHR ''['' \<notin> set t" and rest: "\<forall>t. NoteLink t \<in> set (linkPieces rest) \<longrightarrow> CHR ''['' \<notin> set t"
      using "2.prems" Some p by auto
    have "noteLinkMatches (replaceNoteLinks rest) = []"
      using "2.IH"(2)[OF Some p[symmetric] rest] .
    then show ?thesis using Some p t by (simp add: noteLinkMatches_plain)
  next
    case None
    have cs: "\<forall>t. NoteLink t \<in> set (linkPieces cs) \<longrightarrow> CHR ''['' \<notin> set t"
      using "2.prems" None by auto
    have ih: "noteLinkMatches (replaceNoteLinks cs) = []"
      using "2.IH"(1)[OF None cs] .
    have "matchNoteLink (c # replaceNoteLinks cs) = None"
    proof (rule ccontr)
      assume "matchNoteLink (c # replaceNoteLinks cs) \<noteq> None"
      then obtain t r where m: "matchNoteLink (c # replaceNoteLinks cs) = Some (t, r)" by auto
      then have e: "c # replaceNoteLinks cs = ''[['' @ t @ '']]'' @ r"
        and t: "t \<noteq> []" "CHR '']'' \<notin> set t"
        by (simp_all add: matchNoteLink_Some)
      from e have c: "c = CHR ''[''" and r: "replaceNoteLinks cs = CHR ''['' # t @ '']]'' @ r"
        by simp_all
      from replace_head_opening[OF cs r] obtain cs'
        where cs': "cs = CHR ''['' # cs'" "t @ '']]'' @ r = replaceNoteLinks cs'" by auto
      have "takeWhile (\<lambda>c. c \<noteq> CHR '']'') (replaceNoteLinks cs') \<noteq> []"
        and "startsWith (dropWhile (\<lambda>c. c \<noteq> CHR '']'') (replaceNoteLinks cs')) '']]''"
        unfolding cs'(2)[symmetric] using t
        by (simp_all add: takeWhile_until dropWhile_until startsWith_def)
      then have "takeWhile (\<lambda>c. c \<noteq> CHR '']'') cs' \<noteq> [] \<and>
          startsWith (dropWhile (\<lambda>c. c \<noteq> CHR '']'') cs') '']]''"
        by (rule run_then_closing_reflects)
      then have "matchNoteLink (''[['' @ cs') \<noteq> None"
        using match_after_brackets[of cs'] by blast
      then show False using None c cs'(1) by simp
    qed
    then show ?thesis using None ih by simp
  qed
qed

text \<open>
  C10 (as the code has it). For every body, write \<open>s\<close> for the text that the image stage
  returns. The PDF pre-processing divides \<open>s\<close> into the matches \<^verbatim>\<open>[[Title]]\<close> of its
  expression, taken from left to right, and the characters between them, and returns
  \<open>s\<close> with every match replaced by its title and the other characters unchanged. When no
  title of a match contains \<^verbatim>\<open>[\<close>, the processed text holds no note link. The Related
  Notes come from \<^verbatim>\<open>extractNoteLinks\<close> on the original body: the distinct trimmed titles
  of its matches, in the order of their first occurrence.
\<close>

theorem note_links_replaced:
  "concat (map pieceSource (linkPieces (imageStage markdown))) = imageStage markdown
   \<and> processContentForExport imageStage markdown
       = concat (map pieceText (linkPieces (imageStage markdown)))
   \<and> ((\<forall>t. NoteLink t \<in> set (linkPieces (imageStage markdown)) \<longrightarrow> CHR ''['' \<notin> set t)
        \<longrightarrow> extractNoteLinks (processContentForExport imageStage markdown) = [])
   \<and> extractNoteLinks markdown = uniqueInOrder (linkTitles (linkPieces markdown))"
  using no_link_left[of "imageStage markdown"]
  by (simp add: pieces_source processContentForExport_def replace_pieces[symmetric]
      extractNoteLinks_def matches_pieces[symmetric] uniqueInOrder_def)

theorem note_links_replaced_witness:
  "processContentForExport (\<lambda>s. s) ''see [1] and [[Other Note]], [[Other Note]]''
     = ''see [1] and Other Note, Other Note''
   \<and> extractNoteLinks (processContentForExport (\<lambda>s. s) ''see [1] and [[Other Note]], [[Other Note]]'') = []
   \<and> extractNoteLinks ''see [1] and [[Other Note]], [[Other Note]]'' = [''Other Note'']"
proof -
  let ?m = "''see [1] and [[Other Note]], [[Other Note]]''"
  have p: "linkPieces ?m =
     map (\<lambda>c. Plain [c]) ''see [1] and '' @ [NoteLink ''Other Note'', Plain '','', Plain '' '',
       NoteLink ''Other Note'']"
    by code_simp
  have h: "\<forall>t. NoteLink t \<in> set (linkPieces ((\<lambda>s. s) ?m)) \<longrightarrow> CHR ''['' \<notin> set t"
    unfolding p by auto
  have u: "uniqueInOrder (linkTitles (linkPieces ?m)) = [''Other Note'']"
    by code_simp
  have t: "concat (map pieceText (linkPieces ((\<lambda>s. s) ?m))) = ''see [1] and Other Note, Other Note''"
    by code_simp
  note T = note_links_replaced[of "\<lambda>s. s" ?m]
  from T t have 1: "processContentForExport (\<lambda>s. s) ?m = ''see [1] and Other Note, Other Note''"
    by metis
  from T h have 2: "extractNoteLinks (processContentForExport (\<lambda>s. s) ?m) = []"
    by blast
  from T u have 3: "extractNoteLinks ?m = [''Other Note'']"
    by metis
  show ?thesis by (intro conjI 1 2 3)
qed

text \<open>
  The body \<^verbatim>\<open>[[[[a]]]]\<close>: the single pass replaces the match \<^verbatim>\<open>[[[[a]]\<close> by its
  capture \<^verbatim>\<open>[[a\<close>, so the processed text is \<^verbatim>\<open>[[a]]\<close> and still holds a note link.
\<close>

theorem note_links_replaced_counterexample:
  "processContentForExport (\<lambda>s. s) ''[[[[a]]]]'' = ''[[a]]''
   \<and> extractNoteLinks (processContentForExport (\<lambda>s. s) ''[[[[a]]]]'') = [''a'']"
  by code_simp

section \<open>Rounding to binary64\<close>

lemma bitlen_lower: "0 < p \<Longrightarrow> (2::rat) powi (bitlen p - 1) \<le> of_int p"
proof -
  assume p: "0 < p"
  then have b: "0 < bitlen p"
    using bitlen_eq_zero_iff[of p] bitlen_nonneg[of p] by linarith
  have "(2::int) ^ nat (bitlen p - 1) \<le> p" using bitlen_bounds[OF p] by simp
  then have "(of_int ((2::int) ^ nat (bitlen p - 1)) :: rat) \<le> of_int p"
    by (simp only: of_int_le_iff)
  then show ?thesis using b by (simp add: power_int_def)
qed

lemma bitlen_upper: "0 < p \<Longrightarrow> of_int p < (2::rat) powi (bitlen p)"
proof -
  assume p: "0 < p"
  then have b: "0 < bitlen p"
    using bitlen_eq_zero_iff[of p] bitlen_nonneg[of p] by linarith
  have "p < (2::int) ^ nat (bitlen p)" using bitlen_bounds[OF p] by simp
  then have "(of_int p :: rat) < of_int ((2::int) ^ nat (bitlen p))"
    by (simp only: of_int_less_iff)
  then show ?thesis using b by (simp add: power_int_def)
qed

text \<open>\<open>expo x\<close> is the binary exponent of a positive \<open>x\<close>.\<close>

lemma expo_bounds:
  assumes "0 < x"
  shows "2 powi expo x \<le> x" and "x < 2 powi (expo x + 1)"
proof -
  obtain p q where pq: "quotient_of x = (p, q)" by (cases "quotient_of x")
  then have q: "0 < q" and x: "x = of_int p / of_int q"
    using quotient_of_denom_pos quotient_of_div by auto
  with assms have p: "0 < p" by (simp add: zero_less_divide_iff)
  let ?k = "bitlen p - bitlen q"
  have e: "expo x = (if 2 powi ?k \<le> x then ?k else ?k - 1)"
    by (simp add: expo_def pq)
  have qr: "(0::rat) < of_int q" using q by simp
  have "(2::rat) powi (?k - 1) = 2 powi (bitlen p - 1) / 2 powi bitlen q"
    by (simp add: power_int_diff)
  also have "\<dots> \<le> of_int p / 2 powi bitlen q"
    using bitlen_lower[OF p] by (simp add: divide_right_mono)
  also have "\<dots> \<le> of_int p / of_int q"
    using bitlen_upper[OF q] p qr by (simp add: frac_le)
  finally have lo: "(2::rat) powi (?k - 1) \<le> x" using x by simp
  have "x = of_int p / of_int q" by (rule x)
  also have "\<dots> < 2 powi bitlen p / of_int q"
    using bitlen_upper[OF p] qr by (simp add: divide_strict_right_mono)
  also have "\<dots> \<le> 2 powi bitlen p / 2 powi (bitlen q - 1)"
    using bitlen_lower[OF q] by (simp add: frac_le)
  also have "\<dots> = 2 powi (?k + 1)"
    by (simp add: power_int_diff power_int_add field_simps)
  finally have hi: "x < 2 powi (?k + 1)" .
  show "2 powi expo x \<le> x" using lo e by auto
  show "x < 2 powi (expo x + 1)" using hi e by (auto simp: not_le)
qed

lemma roundHalfEven_error: "\<bar>of_int (roundHalfEven q) - q\<bar> \<le> 1 / 2"
proof -
  have a: "of_int \<lfloor>q\<rfloor> \<le> q" and b: "q < of_int \<lfloor>q\<rfloor> + 1" by linarith+
  have c: "\<bar>of_int \<lfloor>q\<rfloor> - q\<bar> = q - of_int \<lfloor>q\<rfloor>"
    and d: "\<bar>of_int (\<lfloor>q\<rfloor> + 1) - q\<bar> = of_int \<lfloor>q\<rfloor> + 1 - q"
    using a b by simp_all
  show ?thesis
    unfolding roundHalfEven_def Let_def
    by (simp only: c d split: if_split) linarith
qed

text \<open>Rounding a positive number changes it by at most half a unit in the last place.\<close>

lemma rnd_error:
  assumes "0 < x"
  shows "\<bar>rnd x - x\<bar> \<le> x / 2 ^ 53"
proof -
  let ?ulp = "(2::rat) powi (expo x - 52)"
  let ?n = "roundHalfEven (x / ?ulp)"
  have u: "0 < ?ulp" by simp
  have r: "rnd x = of_int ?n * ?ulp" using assms by (simp add: rnd_def Let_def)
  have "\<bar>of_int ?n * ?ulp - x\<bar> = \<bar>of_int ?n - x / ?ulp\<bar> * ?ulp"
  proof -
    have "of_int ?n * ?ulp - x = (of_int ?n - x / ?ulp) * ?ulp"
      using u by (simp add: field_simps)
    then show ?thesis using u by (simp add: abs_mult)
  qed
  also have "\<dots> \<le> 1 / 2 * ?ulp"
    using roundHalfEven_error[of "x / ?ulp"] u by (intro mult_right_mono) simp_all
  also have "\<dots> = 2 powi expo x / 2 ^ 53"
    by (simp add: power_int_diff)
  also have "\<dots> \<le> x / 2 ^ 53"
    using expo_bounds(1)[OF assms] by (simp add: divide_right_mono)
  finally show ?thesis using r by simp
qed

lemma rnd_pos: "0 < x \<Longrightarrow> 0 < rnd x"
proof -
  assume x: "0 < x"
  have "x / 2 ^ 53 < x" using x by (simp add: field_simps)
  then show ?thesis using rnd_error[OF x] by linarith
qed


text \<open>The quotient by a rounded quotient: the relative error passes to the inverse.\<close>

lemma rnd_quotient:
  assumes "0 < m" "0 < a"
  shows "0 < rnd (m / a)" and "\<bar>a - m / rnd (m / a)\<bar> \<le> (m / rnd (m / a)) / 2 ^ 53"
proof -
  let ?g = "rnd (m / a)"
  have q: "0 < m / a" using assms by simp
  show g: "0 < ?g" by (rule rnd_pos[OF q])
  have e: "\<bar>?g - m / a\<bar> \<le> (m / a) / 2 ^ 53" by (rule rnd_error[OF q])
  have "(?g - m / a) * a = ?g * a - m" using assms by (simp add: field_simps)
  moreover have "\<bar>(?g - m / a) * a\<bar> \<le> (m / a) / 2 ^ 53 * a"
  proof -
    have "\<bar>(?g - m / a) * a\<bar> = \<bar>?g - m / a\<bar> * a" using assms by (simp add: abs_mult)
    also have "\<dots> \<le> (m / a) / 2 ^ 53 * a"
      using assms by (intro mult_right_mono e) simp
    finally show ?thesis .
  qed
  moreover have "(m / a) / 2 ^ 53 * a = m / 2 ^ 53" using assms by simp
  ultimately have 1: "\<bar>?g * a - m\<bar> \<le> m / 2 ^ 53" by simp
  have "(?g * a - m) / ?g = a - m / ?g" using g by (simp add: field_simps)
  moreover have "\<bar>(?g * a - m) / ?g\<bar> \<le> (m / 2 ^ 53) / ?g"
  proof -
    have "\<bar>(?g * a - m) / ?g\<bar> = \<bar>?g * a - m\<bar> / ?g" using g by simp
    also have "\<dots> \<le> (m / 2 ^ 53) / ?g"
      using g by (intro divide_right_mono 1) simp
    finally show ?thesis .
  qed
  ultimately show "\<bar>a - m / ?g\<bar> \<le> (m / ?g) / 2 ^ 53" by simp
qed

section \<open>Image scaling\<close>

lemma ratio_full:
  fixes r a t :: rat
  shows "0 < r \<Longrightarrow> \<bar>a - r\<bar> \<le> r / 2 ^ 53 \<Longrightarrow> \<bar>a - t\<bar> \<le> t / 2 ^ 53 \<Longrightarrow> \<bar>t - r\<bar> \<le> r / 2 ^ 51"
  unfolding abs_le_iff by simp

lemma ratio_clamped:
  fixes r a f :: rat
  shows "0 < r \<Longrightarrow> \<bar>a - r\<bar> \<le> r / 2 ^ 53 \<Longrightarrow> \<bar>f - 80 * a\<bar> \<le> 80 * a / 2 ^ 53
    \<Longrightarrow> \<bar>f / 80 - r\<bar> \<le> r / 2 ^ 51"
  unfolding abs_le_iff by simp

lemma placedSize_positive:
  assumes "0 < w" "0 < h"
  shows "placedSize maxWidth (w, h) =
     (if rnd (maxWidth / rnd (of_nat w / of_nat h)) \<le> maxImageHeight
      then Some (maxWidth, rnd (maxWidth / rnd (of_nat w / of_nat h)))
      else Some (rnd (maxImageHeight * rnd (of_nat w / of_nat h)), maxImageHeight))"
  using assms by (simp add: placedSize_def Let_def min_def)

lemma placed_ratio:
  assumes "0 < w" "0 < h" "0 < maxWidth" "placedSize maxWidth (w, h) = Some (fw, fh)"
  shows "0 < fh" and "fh \<le> maxImageHeight"
    and "\<bar>fw / fh - of_nat w / of_nat h\<bar> \<le> (of_nat w / of_nat h) / 2 ^ 51"
proof -
  let ?r = "of_nat w / of_nat h :: rat"
  let ?a = "rnd ?r"
  let ?g = "rnd (maxWidth / ?a)"
  have r: "0 < ?r" using assms by simp
  have a: "0 < ?a" by (rule rnd_pos[OF r])
  have ea: "\<bar>?a - ?r\<bar> \<le> ?r / 2 ^ 53" by (rule rnd_error[OF r])
  have g: "0 < ?g" by (rule rnd_quotient(1)[OF assms(3) a])
  have eg: "\<bar>?a - maxWidth / ?g\<bar> \<le> (maxWidth / ?g) / 2 ^ 53"
    by (rule rnd_quotient(2)[OF assms(3) a])
  have c: "0 < maxImageHeight * ?a" using a by (simp add: maxImageHeight_def)
  have ec: "\<bar>rnd (maxImageHeight * ?a) - maxImageHeight * ?a\<bar> \<le> maxImageHeight * ?a / 2 ^ 53"
    by (rule rnd_error[OF c])
  note p = assms(4)[unfolded placedSize_positive[OF assms(1,2)]]
  show "0 < fh" using p g by (auto simp: maxImageHeight_def split: if_splits)
  show "fh \<le> maxImageHeight" using p by (auto split: if_splits)
  show "\<bar>fw / fh - ?r\<bar> \<le> ?r / 2 ^ 51"
  proof (cases "?g \<le> maxImageHeight")
    case True
    then have "fw = maxWidth" "fh = ?g" using p by auto
    then have e: "fw / fh = maxWidth / ?g" by simp
    show ?thesis unfolding e by (rule ratio_full[OF r ea eg])
  next
    case False
    then have "fw = rnd (maxImageHeight * ?a)" "fh = maxImageHeight" using p by auto
    then have e: "fw / fh = rnd (80 * ?a) / 80" by (simp add: maxImageHeight_def)
    show ?thesis unfolding e by (rule ratio_clamped[OF r ea ec[unfolded maxImageHeight_def]])
  qed
qed

lemma placeImage_accepted:
  assumes "placedSize maxWidth dims = Some (fw, fh)"
    and "\<forall>y. \<not> addImageThrows e src validFormat x y (Some (fw, fh))"
  shows "\<exists>doc y. placeImage e src validFormat dims x maxWidth pageH margin keyPointsWidth
             sectionInfo st = Some (doc, y)
           \<and> drawn doc \<noteq> []
           \<and> last (drawn doc) = (page doc, ImageAt src validFormat x (y - fh - 4) fw fh)"
  using assms by (simp add: placeImage_def Let_def draw_def)

text \<open>
  C8 (as the code has it). For every image with positive intrinsic width \<open>w\<close> and
  height \<open>h\<close> and every positive column width, the size \<open>(finalWidth, finalHeight)\<close>
  computed for it is finite, its height is positive and at most \<open>maxImageHeight = 80\<close>,
  and \<open>finalWidth / finalHeight\<close> differs from \<open>w / h\<close> by at most \<open>w / h\<close> times
  \<open>2\<^sup>-\<^sup>5\<^sup>1\<close>: the ratio is kept up to the rounding of the three binary64 operations, not
  exactly. When the width-derived height, computed as \<open>maxWidth / (w / h)\<close> with both
  quotients rounded, exceeds 80, the height is 80 and the width is the rounded product
  of 80 and the rounded \<open>w / h\<close>; otherwise the height is that width-derived height and
  the width is \<open>maxWidth\<close>. When jsPDF accepts the image, the last item drawn is the image
  with this width and height, and the cursor is 4 below it.
\<close>

theorem placedSize_aspect:
  assumes "0 < w" "0 < h" "0 < maxWidth"
  shows "\<exists>fw fh. placedSize maxWidth (w, h) = Some (fw, fh)
     \<and> 0 < fh \<and> fh \<le> maxImageHeight
     \<and> \<bar>fw / fh - of_nat w / of_nat h\<bar> \<le> (of_nat w / of_nat h) / 2 ^ 51
     \<and> (if maxImageHeight < rnd (maxWidth / rnd (of_nat w / of_nat h))
         then fh = maxImageHeight \<and> fw = rnd (maxImageHeight * rnd (of_nat w / of_nat h))
         else fh = rnd (maxWidth / rnd (of_nat w / of_nat h)) \<and> fw = maxWidth)
     \<and> ((\<forall>y. \<not> addImageThrows e src validFormat x y (Some (fw, fh))) \<longrightarrow>
          (\<exists>doc y. placeImage e src validFormat (w, h) x maxWidth pageH margin keyPointsWidth
                      sectionInfo st = Some (doc, y)
                    \<and> drawn doc \<noteq> []
                    \<and> last (drawn doc) = (page doc, ImageAt src validFormat x (y - fh - 4) fw fh)))"
proof -
  obtain fw fh where s: "placedSize maxWidth (w, h) = Some (fw, fh)"
    using placedSize_positive[OF assms(1,2), of maxWidth] by (auto split: if_splits)
  have c: "if maxImageHeight < rnd (maxWidth / rnd (of_nat w / of_nat h))
         then fh = maxImageHeight \<and> fw = rnd (maxImageHeight * rnd (of_nat w / of_nat h))
         else fh = rnd (maxWidth / rnd (of_nat w / of_nat h)) \<and> fw = maxWidth"
    using s[unfolded placedSize_positive[OF assms(1,2)]] by (auto split: if_splits)
  have d: "(\<forall>y. \<not> addImageThrows e src validFormat x y (Some (fw, fh))) \<longrightarrow>
          (\<exists>doc y. placeImage e src validFormat (w, h) x maxWidth pageH margin keyPointsWidth
                      sectionInfo st = Some (doc, y)
                    \<and> drawn doc \<noteq> []
                    \<and> last (drawn doc) = (page doc, ImageAt src validFormat x (y - fh - 4) fw fh))"
    using placeImage_accepted[OF s] by blast
  show ?thesis
    using s placed_ratio[OF assms s] c d by blast
qed

theorem placedSize_aspect_witness:
  "placedSize 125 (1, 1) = Some (80, 80)
   \<and> (\<exists>doc y. placeImage sampleEnv samplePng ''PNG'' (1, 1) 65 125 297 15 45 (0, 1) (newDoc, 48) = Some (doc, y)
               \<and> last (drawn doc)
                   = (page doc, ImageAt samplePng ''PNG'' 65 (y - 80 - 4) 80 80))"
proof -
  have s: "placedSize 125 (1, 1) = Some (80, 80)"
    by code_simp
  have t: "\<forall>y. \<not> addImageThrows sampleEnv samplePng ''PNG'' 65 y (Some (80, 80))"
    by (simp add: sampleEnv_def)
  have p: "0 < (1::nat)" "0 < (1::nat)" "0 < (125::rat)" by simp_all
  from placedSize_aspect[OF p, of sampleEnv samplePng "''PNG''" 65 297 15 45 "(0, 1)" "(newDoc, 48)"]
  obtain fw fh where f: "placedSize 125 (1, 1) = Some (fw, fh)"
    and i: "(\<forall>y. \<not> addImageThrows sampleEnv samplePng ''PNG'' 65 y (Some (fw, fh))) \<longrightarrow>
          (\<exists>doc y. placeImage sampleEnv samplePng ''PNG'' (1, 1) 65 125 297 15 45 (0, 1) (newDoc, 48)
                      = Some (doc, y)
                    \<and> drawn doc \<noteq> []
                    \<and> last (drawn doc) = (page doc, ImageAt samplePng ''PNG'' 65 (y - fh - 4) fw fh))"
    by blast
  from f s have e: "fw = 80" "fh = 80" by simp_all
  from i t show ?thesis unfolding e using s by blast
qed

text \<open>
  An image of 1 by 9 in a column of width 125: the height is clamped to 80 and the width
  is the binary64 product of 80 and the binary64 quotient 1 / 9. The ratio of the
  placed size is not \<open>1 / 9\<close>, and the binary64 quotient of the placed width and height is
  not the binary64 quotient of 1 and 9 (it is \<^verbatim>\<open>0.11111111111111112\<close>, the other
  \<^verbatim>\<open>0.1111111111111111\<close>).
\<close>

theorem placedSize_aspect_counterexample:
  "placedSize 125 (1, 9) = Some (2501999792983609 / 281474976710656, 80)
   \<and> (2501999792983609 / 281474976710656) / 80 \<noteq> (1 :: rat) / 9
   \<and> rnd ((2501999792983609 / 281474976710656) / 80) = 8006399337547549 / 2 ^ 56
   \<and> rnd (1 / 9) = 8006399337547548 / 2 ^ 56"
  by code_simp

section \<open>The cursor after a block\<close>




























section \<open>Documents without a top-level heading\<close>

lemma scanLine_no_heading:
  "\<forall>l\<in>set lines. \<not> startsWith l ''# '' \<Longrightarrow> foldl scanLine ([], []) lines = ([], [])"
  by (induction lines) (auto simp: scanLine_def)

lemma pushCard_no_heading: "pushCard e [] c cards = Some cards"
  by (simp add: pushCard_def)

lemma cardLine_no_heading:
  "\<forall>l\<in>set lines. \<not> startsWith l ''# '' \<Longrightarrow>
   foldl (cardLine e) (Some ([], [], cards)) lines = Some ([], [], cards)"
  by (induction lines) (auto simp: cardLine_def)

lemma flashcards_no_heading:
  assumes "\<forall>l\<in>set (split NL markdown). \<not> startsWith l ''# ''"
  shows "parseNotesToFlashcards e title summary markdown =
     (if trim summary \<noteq> []
      then (case cleanMarkdownForAnki e summary of
              None \<Rightarrow> None
            | Some (cleaned, imgs) \<Rightarrow>
                Some [\<lparr>front = title @ '' - Summary'', back' = cleaned, images = imgs\<rparr>])
      else Some [])"
  using assms
  by (auto simp: parseNotesToFlashcards_def Let_def scanLine_no_heading cardLine_no_heading
      pushCard_no_heading split: option.splits)

lemma parseLines_no_heading:
  "\<forall>l\<in>set lines. \<not> startsWith l ''# '' \<Longrightarrow> parseLines lines = []"
  using parseLines_preamble[of lines "[]"] by (simp add: parseLines_blank)

lemma exportToPdf_no_sections:
  assumes "parseMarkdown (processContentForExport (loadImages e) markdown) = []"
  shows "exportToPdf e title summary markdown fontChoice =
     Some \<lparr>pdfName = pdfFilename title,
      document = relatedNotes (getFontSettings fontChoice) (pageHeight e) 15 (extractNoteLinks markdown)
        (snd (pdfHeader e (getFontSettings fontChoice) 15 45 (pageWidth e - 15 - 45 - 15) title summary))
        (fst (pdfHeader e (getFontSettings fontChoice) 15 45 (pageWidth e - 15 - 45 - 15) title summary))\<rparr>"
proof -
  have c: "foldl (continuationHeading e fs m k [] Map.empty) doc ps = doc" for fs m k doc ps
    by (induction ps arbitrary: doc) (auto simp: continuationHeading_def)
  show ?thesis
    using assms by (simp add: exportToPdf_def Let_def enumerate_eq_zip c)
qed

text \<open>An expression that begins with a character that the text does not contain matches
  nowhere in it.\<close>

lemma exec_no_match: "\<forall>j. matches s ml r (j, []) = [] \<Longrightarrow> exec r ml s i = None"
  by (simp add: exec_def find_None_iff[THEN iffD2])

lemma matches_Lit_absent: "c \<notin> set s \<Longrightarrow> matches s ml (Lit c) st = []"
  by auto

lemma htmlImageRegex_no_match: "CHR ''<'' \<notin> set s \<Longrightarrow> execAll htmlImageRegex s = []"
proof -
  assume a: "CHR ''<'' \<notin> set s"
  have "matches s False htmlImageRegex (j, []) = []" for j
    unfolding htmlImageRegex_def using matches_Lit_absent[OF a] by simp
  then have "exec htmlImageRegex False s 0 = None"
    by (intro exec_no_match) simp
  then show ?thesis by (simp add: execAll_def)
qed

lemma markdownImageLoop_no_match: "CHR ''!'' \<notin> set s \<Longrightarrow> markdownImageLoop s i = Some s"
proof -
  assume a: "CHR ''!'' \<notin> set s"
  have "matches s False markdownImageRegex (j, []) = []" for j
    unfolding markdownImageRegex_def using matches_Lit_absent[OF a] by simp
  then have "exec markdownImageRegex False s i = None"
    by (intro exec_no_match) simp
  then show ?thesis by (subst markdownImageLoop.simps) simp
qed

lemma cleanMarkdownForAnki_plain:
  "CHR ''<'' \<notin> set s \<Longrightarrow> CHR ''!'' \<notin> set s \<Longrightarrow> cleanMarkdownForAnki e s = Some (formatMarkdown e s, [])"
  by (simp add: cleanMarkdownForAnki_def processImagesForAnki_def htmlImageRegex_no_match
      markdownImageLoop_no_match)

text \<open>
  The loop over the markdown images need not end. The expression matches \<^verbatim>\<open>![alt]\<close> only
  at the end of the text; the match is replaced where its text occurs first, and the
  pattern \<^verbatim>\<open>$&\<close> in the replacement stands for the matched text. With the two lines
  \<^verbatim>\<open>![$&]\<close> the first occurrence is rewritten into a tag that holds \<^verbatim>\<open>![$&]\<close> again, the
  last line stays, and the next search finds it again.
\<close>

lemma starLazy_Cls:
  "starLazy (matches s ml (Cls P)) k (p, c) =
     map (\<lambda>i. (p + i, c)) [0 ..< Suc (min k (length (takeWhile P (drop p s))))]"
proof (induction k arbitrary: p)
  case 0
  show ?case by simp
next
  case (Suc k)
  show ?case
  proof (cases "p < length s \<and> P (s ! p)")
    case True
    then have d: "drop p s = s ! p # drop (Suc p) s" by (simp add: Cons_nth_drop_Suc)
    have len: "length (takeWhile P (drop p s)) = Suc (length (takeWhile P (drop (Suc p) s)))"
      using True by (simp add: d)
    let ?m = "min k (length (takeWhile P (drop (Suc p) s)))"
    have "starLazy (matches s ml (Cls P)) (Suc k) (p, c)
        = (p, c) # starLazy (matches s ml (Cls P)) k (Suc p, c)"
      using True by simp
    also have "\<dots> = (p, c) # map (\<lambda>i. (Suc p + i, c)) [0 ..< Suc ?m]"
      by (simp only: Suc.IH)
    also have "\<dots> = map (\<lambda>i. (p + i, c)) (0 # map Suc [0 ..< Suc ?m])"
      by simp
    also have "0 # map Suc [0 ..< Suc ?m] = [0 ..< Suc (Suc ?m)]"
      by (simp only: map_Suc_upt upt_conv_Cons[of 0 "Suc (Suc ?m)"])
    finally show ?thesis by (simp only: len min_Suc_Suc)
  next
    case False
    then have "takeWhile P (drop p s) = []"
      by (cases "p < length s") (simp_all add: Cons_nth_drop_Suc[symmetric])
    then show ?thesis using False by auto
  qed
qed


lemma length_takeWhile_le_nth:
  assumes "n < length xs" "\<not> P (xs ! n)"
  shows "length (takeWhile P xs) \<le> n"
proof (rule ccontr)
  assume "\<not> length (takeWhile P xs) \<le> n"
  then have l: "n < length (takeWhile P xs)" by simp
  then have "takeWhile P xs ! n = xs ! n" by (rule takeWhile_nth)
  moreover have "takeWhile P xs ! n \<in> set (takeWhile P xs)" using l by simp
  ultimately show False using assms(2) by (auto dest: set_takeWhileD)
qed

lemma matches_Lit_Seq:
  "matches s ml (Seq (Lit x) b) (p, c) =
     (if p < length s \<and> s ! p = x then matches s ml b (Suc p, c) else [])"
  by auto

lemma matches_Eol_Seq:
  "matches s False (Seq Eol b) (p, c) = (if p = length s then matches s False b (p, c) else [])"
  by simp

lemma matches_Eol: "matches s False Eol (p, c) = (if p = length s then [(p, c)] else [])"
  by simp

lemma matches_Group_Dot_Seq:
  "matches s ml (Seq (Group n (StarLazy Dot)) b) (p, c) =
     concat (map (\<lambda>i. matches s ml b (p + i, (n, take i (drop p s)) # c))
               [0 ..< Suc (min (length s)
                             (length (takeWhile (\<lambda>c. \<not> isLineTerminator c) (drop p s))))])"
proof -
  have "matches s ml (StarLazy Dot) (p, c) =
      map (\<lambda>i. (p + i, c))
        [0 ..< Suc (min (length s) (length (takeWhile (\<lambda>c. \<not> isLineTerminator c) (drop p s))))]"
    unfolding Dot_def matches.simps(7) by (rule starLazy_Cls)
  then show ?thesis
    by (simp only: matches.simps(4,8) fst_conv snd_conv map_map comp_def add_diff_cancel_left')
qed

lemma run_bound:
  assumes "a \<le> q" "q < length s" "\<not> P (s ! q)"
  shows "length (takeWhile P (drop a s)) \<le> q - a"
  using assms by (intro length_takeWhile_le_nth) simp_all

text \<open>The part of \<^verbatim>\<open>markdownImageRegex\<close> from the closing bracket on matches only at the
  last character of the text.\<close>

lemma markdownImage_tail:
  "matches s False (seqs [Lit (CHR '']''), Eol, Eol, Group 2 (StarLazy Dot), Eol, Eol]) (p, c) =
     (if p < length s \<and> s ! p = CHR '']'' \<and> Suc p = length s then [(length s, (2, []) # c)] else [])"
proof -
  have "matches s False (Seq (Group 2 (StarLazy Dot)) (Seq Eol Eol)) (length s, c)
      = [(length s, (2, []) # c)]"
    unfolding matches_Group_Dot_Seq matches_Eol_Seq matches_Eol by simp
  then show ?thesis
    by (simp only: seqs.simps matches_Lit_Seq matches_Eol_Seq) simp
qed

lemma markdownImage_matches:
  "matches s False markdownImageRegex (j, []) =
     (if j < length s \<and> s ! j = CHR ''!'' \<and> Suc j < length s \<and> s ! Suc j = CHR ''[''
      then concat (map (\<lambda>i. matches s False
                             (seqs [Lit (CHR '']''), Eol, Eol, Group 2 (StarLazy Dot), Eol, Eol])
                             (j + 2 + i, [(1, take i (drop (j + 2) s))]))
                     [0 ..< Suc (min (length s)
                                   (length (takeWhile (\<lambda>c. \<not> isLineTerminator c) (drop (j + 2) s))))])
      else [])"
proof -
  have r: "markdownImageRegex = Seq (Lit (CHR ''!'')) (Seq (Lit (CHR ''['')) (Seq (Group 1 (StarLazy Dot))
      (seqs [Lit (CHR '']''), Eol, Eol, Group 2 (StarLazy Dot), Eol, Eol])))"
    by (simp add: markdownImageRegex_def)
  have 2: "Suc (Suc j) = j + 2" by simp
  show ?thesis
    unfolding r matches_Lit_Seq matches_Group_Dot_Seq 2 by (auto simp del: upt_Suc seqs.simps)
qed

lemma markdownImage_no_match:
  assumes "j + 2 \<le> q" "q < length s" "isLineTerminator (s ! q)"
  shows "matches s False markdownImageRegex (j, []) = []"
proof -
  let ?run = "length (takeWhile (\<lambda>c. \<not> isLineTerminator c) (drop (j + 2) s))"
  have "?run \<le> q - (j + 2)"
    using assms by (intro run_bound) simp_all
  then have r: "j + 2 + i \<le> q" if "i < Suc (min (length s) ?run)" for i
    using that assms(1) by simp
  have t: "matches s False (seqs [Lit (CHR '']''), Eol, Eol, Group 2 (StarLazy Dot), Eol, Eol])
            (j + 2 + i, c) = []" if "i < Suc (min (length s) ?run)" for i c
  proof -
    have "\<not> (s ! (j + 2 + i) = CHR '']'' \<and> Suc (j + 2 + i) = length s)"
    proof
      assume a: "s ! (j + 2 + i) = CHR '']'' \<and> Suc (j + 2 + i) = length s"
      then have "j + 2 + i = q" using r[OF that] assms(2) by simp
      then show False using a assms(3) by (simp add: isLineTerminator_def)
    qed
    then show ?thesis unfolding markdownImage_tail by simp
  qed
  show ?thesis
    unfolding markdownImage_matches using t by (simp del: upt_Suc seqs.simps matches.simps)
qed

lemma markdownImage_no_bang:
  "j < length s \<Longrightarrow> s ! j \<noteq> CHR ''!'' \<Longrightarrow> matches s False markdownImageRegex (j, []) = []"
  unfolding markdownImage_matches by simp

lemma markdownImage_last:
  "matches (pre @ ''![$&]'') False markdownImageRegex (length pre, [])
     = [(length pre + 5, [(2, []), (1, ''$&'')])]"
  unfolding markdownImage_matches markdownImage_tail
  by (simp add: nth_append isLineTerminator_def upt_rec)



lemma find_first_upt:
  assumes "i \<le> j" "j < n" "P j" "\<And>k. i \<le> k \<Longrightarrow> k < j \<Longrightarrow> \<not> P k"
  shows "List.find P [i ..< n] = Some j"
proof -
  have "\<exists>k<length [i ..< n]. P ([i ..< n] ! k) \<and> j = [i ..< n] ! k \<and> (\<forall>m<k. \<not> P ([i ..< n] ! m))"
  proof (intro exI[of _ "j - i"] conjI allI impI)
    show "j - i < length [i ..< n]" using assms(1,2) by simp
    show "P ([i ..< n] ! (j - i))" using assms(1,2,3) by simp
    show "j = [i ..< n] ! (j - i)" using assms(1,2) by simp
    fix m assume "m < j - i"
    then show "\<not> P ([i ..< n] ! m)" using assms(1,2) assms(4)[of "i + m"] by simp
  qed
  then show ?thesis by (simp only: find_Some_iff)
qed

lemma indexOf_first:
  assumes "s = u @ pat @ w"
  shows "\<exists>k\<le>length u. indexOf s pat = Some k \<and> take (length pat) (drop k s) = pat"
proof -
  let ?P = "\<lambda>i. take (length pat) (drop i s) = pat"
  have p: "?P (length u)" using assms by simp
  have "length u \<in> set [0 ..< Suc (length s)]" using assms by simp
  then have "List.find ?P [0 ..< Suc (length s)] \<noteq> None"
    using p by (auto simp only: find_None_iff)
  then obtain k where k: "List.find ?P [0 ..< Suc (length s)] = Some k" by auto
  then obtain idx where idx: "idx < length [0 ..< Suc (length s)]" "?P ([0 ..< Suc (length s)] ! idx)"
    "k = [0 ..< Suc (length s)] ! idx" "\<forall>m<idx. \<not> ?P ([0 ..< Suc (length s)] ! m)"
    unfolding find_Some_iff by blast
  have ki: "k = idx" using idx(1,3) by (simp del: upt_Suc)
  have "k \<le> length u"
  proof (rule ccontr)
    assume "\<not> k \<le> length u"
    then have "length u < idx" using ki by simp
    then have "\<not> ?P ([0 ..< Suc (length s)] ! length u)" using idx(4) by blast
    moreover have "[0 ..< Suc (length s)] ! length u = length u"
      using assms by (simp del: upt_Suc)
    ultimately show False using p by simp
  qed
  moreover have "?P k" using idx(2,3) by simp
  ultimately show ?thesis using k by (auto simp: indexOf_def)
qed


text \<open>A text whose last line is \<^verbatim>\<open>![$&]\<close>, searched from a position before that line:
  the first match is that line.\<close>

lemma exec_last_line:
  assumes "b \<noteq> []" "last b \<noteq> CHR ''!''" "i \<le> length b + 1"
  shows "exec markdownImageRegex False (b @ NL # ''![$&]'') i =
     Some \<lparr>mstart = length b + 1, mend = length b + 6, groups = [(2, []), (1, ''$&'')]\<rparr>"
proof -
  let ?s = "b @ NL # ''![$&]''"
  have m: "matches ?s False markdownImageRegex (length b + 1, []) = [(length b + 6, [(2, []), (1, ''$&'')])]"
    using markdownImage_last[of "b @ [NL]"] by simp
  have n: "matches ?s False markdownImageRegex (k, []) = []" if "k < length b + 1" for k
  proof -
    have "k + 2 \<le> length b \<or> k = length b - 1 \<or> k = length b"
      using that by linarith
    then consider "k + 2 \<le> length b" | "k = length b - 1" | "k = length b"
      by blast
    then show ?thesis
    proof cases
      case 1
      show ?thesis
        by (rule markdownImage_no_match[OF 1])
           (simp_all add: nth_append isLineTerminator_def NL_def)
    next
      case 2
      have "?s ! k = last b" using assms(1) by (simp add: 2 nth_append last_conv_nth)
      then show ?thesis
        using assms(1,2) 2 by (intro markdownImage_no_bang) simp_all
    next
      case 3
      have "?s ! k = NL" by (simp add: 3)
      then show ?thesis
        by (intro markdownImage_no_bang) (simp_all add: 3 NL_def)
    qed
  qed
  have f: "List.find (\<lambda>j. matches ?s False markdownImageRegex (j, []) \<noteq> []) [i ..< Suc (length ?s)]
      = Some (length b + 1)"
    by (rule find_first_upt) (use assms(3) m n in simp_all)
  show ?thesis unfolding exec_def f option.case m by simp
qed

lemma expand_image_tag:
  "expand ''![$&]'' pre post
     (''<img src='' @ [DQ] @ [] @ [DQ] @ '' alt='' @ [DQ] @ ''$&'' @ [DQ] @ ''>'')
   = ''<img src='' @ [DQ, DQ] @ '' alt='' @ [DQ] @ ''![$&]'' @ [DQ] @ ''>''"
  by (simp add: DQ_def)

text \<open>One iteration of the loop on such a text gives such a text again, and a position
  before its last line.\<close>

lemma markdownImageLoop_step:
  assumes "b = u @ ''![$&]'' @ v" "last b \<noteq> CHR ''!''"
  shows "\<exists>b' u' v'. replaceFirst (b @ NL # ''![$&]'') ''![$&]''
            (''<img src='' @ [DQ] @ [] @ [DQ] @ '' alt='' @ [DQ] @ ''$&'' @ [DQ] @ ''>'')
            = b' @ NL # ''![$&]''
          \<and> b' = u' @ ''![$&]'' @ v' \<and> last b' \<noteq> CHR ''!'' \<and> length b + 6 \<le> length b' + 1"
proof -
  let ?s = "b @ NL # ''![$&]''"
  have su: "?s = u @ ''![$&]'' @ (v @ NL # ''![$&]'')" using assms(1) by simp
  obtain k where k: "k \<le> length u" "indexOf ?s ''![$&]'' = Some k"
    using indexOf_first[OF su] by blast
  have kb: "k + 5 \<le> length b" using k(1) assms(1) by simp
  have tk: "take k ?s = take k b"
    using kb by simp
  have "k + length ''![$&]'' = k + 5" by simp
  then have dk: "drop (k + length ''![$&]'') ?s = drop (k + 5) b @ NL # ''![$&]''"
    using kb by (simp only: drop_append) simp
  let ?e = "''<img src='' @ [DQ, DQ] @ '' alt='' @ [DQ] @ ''![$&]'' @ [DQ] @ ''>''"
  let ?b' = "take k b @ ?e @ drop (k + 5) b"
  have r: "replaceFirst ?s ''![$&]''
            (''<img src='' @ [DQ] @ [] @ [DQ] @ '' alt='' @ [DQ] @ ''$&'' @ [DQ] @ ''>'')
         = ?b' @ NL # ''![$&]''"
    unfolding replaceFirst_def k(2) option.case expand_image_tag tk dk by simp
  have c: "?b' = (take k b @ ''<img src='' @ [DQ, DQ] @ '' alt='' @ [DQ]) @ ''![$&]''
                 @ ([DQ] @ ''>'' @ drop (k + 5) b)"
    by simp
  have l: "last ?b' \<noteq> CHR ''!''"
  proof (cases "drop (k + 5) b = []")
    case True
    then show ?thesis by simp
  next
    case False
    then have "last ?b' = last (drop (k + 5) b)" by simp
    also have "\<dots> = last b" using False by (simp add: last_drop)
    finally show ?thesis using assms(2) by simp
  qed
  have n: "length b + 6 \<le> length ?b' + 1" using kb by simp
  show ?thesis using r c l n by blast
qed

text \<open>So the loop does not end on such a text.\<close>

lemma markdownImageLoop_diverges:
  assumes "b = u @ ''![$&]'' @ v" "last b \<noteq> CHR ''!''" "i \<le> length b + 1"
  shows "markdownImageLoop (b @ NL # ''![$&]'') i = None"
proof (rule ccontr)
  let ?Inv = "\<lambda>s i. \<exists>b u v. s = b @ NL # ''![$&]'' \<and> b = u @ ''![$&]'' @ v \<and> last b \<noteq> CHR ''!''
            \<and> i \<le> length b + 1"
  assume "markdownImageLoop (b @ NL # ''![$&]'') i \<noteq> None"
  then obtain y where y: "markdownImageLoop (b @ NL # ''![$&]'') i = Some y" by auto
  have "\<not> ?Inv (b @ NL # ''![$&]'') i"
  proof (rule markdownImageLoop.raw_induct[where P = "\<lambda>s i y. \<not> ?Inv s i"])
    fix loop :: "string \<Rightarrow> nat \<Rightarrow> string option" and processed lastIndex result
    assume ih: "\<And>s i y. loop s i = Some y \<Longrightarrow> \<not> ?Inv s i"
      and run: "(case exec markdownImageRegex False processed lastIndex of
                   None \<Rightarrow> Some processed
                 | Some m \<Rightarrow>
                     (let fullMatch = matched processed m;
                          alt = orImage (group m 1);
                          src = (case group m 2 of None \<Rightarrow> [] | Some g \<Rightarrow> g);
                          htmlImg = ''<img src='' @ [DQ] @ src @ [DQ] @ '' alt='' @ [DQ] @ alt @ [DQ] @ ''>''
                      in loop (replaceFirst processed fullMatch htmlImg) (mend m))) = Some result"
    show "\<not> ?Inv processed lastIndex"
    proof
      assume "?Inv processed lastIndex"
      then obtain b u v where inv: "processed = b @ NL # ''![$&]''" "b = u @ ''![$&]'' @ v"
        "last b \<noteq> CHR ''!''" "lastIndex \<le> length b + 1" by blast
      have ne: "b \<noteq> []" using inv(2) by simp
      note e = exec_last_line[OF ne inv(3,4)]
      have fm: "matched (b @ NL # ''![$&]'') \<lparr>mstart = length b + 1, mend = length b + 6,
                  groups = [(2, []), (1, ''$&'')]\<rparr> = ''![$&]''"
        by (simp add: matched_def)
      have al: "orImage (group \<lparr>mstart = length b + 1, mend = length b + 6,
                  groups = [(2, []), (1, ''$&'')]\<rparr> 1) = ''$&''"
        and sr: "(case group \<lparr>mstart = length b + 1, mend = length b + 6,
                  groups = [(2, []), (1, ''$&'')]\<rparr> 2 of None \<Rightarrow> [] | Some g \<Rightarrow> g) = []"
        by (simp_all add: group_def orImage_def)
      obtain b' u' v' where st: "replaceFirst (b @ NL # ''![$&]'') ''![$&]''
            (''<img src='' @ [DQ] @ [] @ [DQ] @ '' alt='' @ [DQ] @ ''$&'' @ [DQ] @ ''>'')
            = b' @ NL # ''![$&]''"
          "b' = u' @ ''![$&]'' @ v'" "last b' \<noteq> CHR ''!''" "length b + 6 \<le> length b' + 1"
        using markdownImageLoop_step[OF inv(2,3)] by blast
      have "loop (b' @ NL # ''![$&]'') (length b + 6) = Some result"
        using run unfolding inv(1) e option.case Let_def fm al sr st(1) by simp
      from ih[OF this] show False using st(2,3,4) by blast
    qed
  next
    show "markdownImageLoop (b @ NL # ''![$&]'') i = Some y" by (rule y)
  qed
  then show False using assms by blast
qed

lemma cleanMarkdownForAnki_diverges:
  "cleanMarkdownForAnki e (''![$&]'' @ NL # ''![$&]'') = None"
proof -
  have h: "execAll htmlImageRegex (''![$&]'' @ NL # ''![$&]'') = []"
    by (rule htmlImageRegex_no_match) (simp add: NL_def)
  have m: "markdownImageLoop (''![$&]'' @ NL # ''![$&]'') 0 = None"
    by (rule markdownImageLoop_diverges[where u = "[]" and v = "[]"]) simp_all
  show ?thesis
    unfolding cleanMarkdownForAnki_def processImagesForAnki_def h Let_def foldl_Nil
      image_state.simps m by simp
qed

lemma exportToAnki_diverges:
  "exportToAnki e title (''![$&]'' @ NL # ''![$&]'') markdown = None"
proof -
  have t: "trim (''![$&]'' @ NL # ''![$&]'') \<noteq> []"
    by code_simp
  show ?thesis
    unfolding exportToAnki_def parseNotesToFlashcards_def cleanMarkdownForAnki_diverges
    using t by simp
qed

text \<open>
  C2 (as the code has it). For a body without a line that starts with \<^verbatim>\<open># \<close>:
  \<^verbatim>\<open>exportToAnki\<close> throws its error when the trimmed summary is empty, and only then.
  With any other summary it never throws the error: whenever it returns, it hands over
  an archive that holds the one card of the summary; and it does return, with that
  archive and no image, for every summary that contains neither \<^verbatim>\<open><\<close> nor \<^verbatim>\<open>!\<close>. It does
  not return for every summary: with the two lines \<^verbatim>\<open>![$&]\<close> as the summary the loop over
  the markdown images does not end. \<^verbatim>\<open>exportToPdf\<close> has no
  test on the sections: when the processed body has no such line either, it throws
  nothing and hands over a PDF holding the title, the summary, the rule under them and
  the Related Notes listing, with no section.
\<close>

theorem no_headings_export:
  assumes "\<forall>l\<in>set (split NL markdown). \<not> startsWith l ''# ''"
  shows "(trim summary = [] \<longrightarrow> exportToAnki e title summary markdown = Some (Inl noFlashcardsMessage))
    \<and> (trim summary \<noteq> [] \<longrightarrow>
         (\<forall>r. exportToAnki e title summary markdown = Some r \<longrightarrow>
            (\<exists>cleaned imgs d. cleanMarkdownForAnki e summary = Some (cleaned, imgs) \<and> r = Inr d
               \<and> zipFilename d = ankiZipFilename title
               \<and> fst (hd (entries d)) = ankiTsvFilename title
               \<and> snd (hd (entries d)) = generateAnkiTSV
                    [\<lparr>front = title @ '' - Summary'', back' = cleaned, images = imgs\<rparr>])))
    \<and> (trim summary \<noteq> [] \<and> CHR ''<'' \<notin> set summary \<and> CHR ''!'' \<notin> set summary \<longrightarrow>
         exportToAnki e title summary markdown =
           Some (Inr \<lparr>zipFilename = ankiZipFilename title,
                      entries = [(ankiTsvFilename title, generateAnkiTSV
                        [\<lparr>front = title @ '' - Summary'', back' = formatMarkdown e summary,
                          images = []\<rparr>])]\<rparr>))
    \<and> exportToAnki e title (''![$&]'' @ NL # ''![$&]'') markdown = None
    \<and> ((\<forall>l\<in>set (split NL (processContentForExport (loadImages e) markdown)). \<not> startsWith l ''# '') \<longrightarrow>
         exportToPdf e title summary markdown fontChoice =
           Some \<lparr>pdfName = pdfFilename title,
             document = relatedNotes (getFontSettings fontChoice) (pageHeight e) 15
               (extractNoteLinks markdown)
               (snd (pdfHeader e (getFontSettings fontChoice) 15 45 (pageWidth e - 15 - 45 - 15)
                       title summary))
               (fst (pdfHeader e (getFontSettings fontChoice) 15 45 (pageWidth e - 15 - 45 - 15)
                       title summary))\<rparr>)"
proof -
  note f = flashcards_no_heading[OF assms]
  have a: "trim summary = [] \<longrightarrow> exportToAnki e title summary markdown = Some (Inl noFlashcardsMessage)"
    by (simp add: exportToAnki_def f)
  have b: "\<exists>cleaned imgs d. cleanMarkdownForAnki e summary = Some (cleaned, imgs) \<and> r = Inr d
               \<and> zipFilename d = ankiZipFilename title
               \<and> fst (hd (entries d)) = ankiTsvFilename title
               \<and> snd (hd (entries d)) = generateAnkiTSV
                    [\<lparr>front = title @ '' - Summary'', back' = cleaned, images = imgs\<rparr>]"
    if "trim summary \<noteq> []" "exportToAnki e title summary markdown = Some r" for r
    using that by (auto simp: exportToAnki_def f Let_def split: option.splits)
  have c: "exportToAnki e title summary markdown =
           Some (Inr \<lparr>zipFilename = ankiZipFilename title,
                      entries = [(ankiTsvFilename title, generateAnkiTSV
                        [\<lparr>front = title @ '' - Summary'', back' = formatMarkdown e summary,
                          images = []\<rparr>])]\<rparr>)"
    if "trim summary \<noteq> [] \<and> CHR ''<'' \<notin> set summary \<and> CHR ''!'' \<notin> set summary"
    using that
    by (simp add: exportToAnki_def f Let_def cleanMarkdownForAnki_plain collectImages_def
        List.map_filter_simps)
  have d: "exportToPdf e title summary markdown fontChoice =
           Some \<lparr>pdfName = pdfFilename title,
             document = relatedNotes (getFontSettings fontChoice) (pageHeight e) 15
               (extractNoteLinks markdown)
               (snd (pdfHeader e (getFontSettings fontChoice) 15 45 (pageWidth e - 15 - 45 - 15)
                       title summary))
               (fst (pdfHeader e (getFontSettings fontChoice) 15 45 (pageWidth e - 15 - 45 - 15)
                       title summary))\<rparr>"
    if "\<forall>l\<in>set (split NL (processContentForExport (loadImages e) markdown)). \<not> startsWith l ''# ''"
  proof -
    have "parseMarkdown (processContentForExport (loadImages e) markdown) = []"
      using that by (simp add: parseMarkdown_def parseLines_no_heading)
    then show ?thesis by (rule exportToPdf_no_sections)
  qed
  note n = exportToAnki_diverges[of e title markdown]
  show ?thesis using a b c n d by blast
qed

theorem no_headings_export_witness:
  "exportToAnki sampleEnv ''T'' '' '' ''plain text'' = Some (Inl noFlashcardsMessage)
   \<and> exportToAnki sampleEnv ''T'' ''S'' ''plain text''
       = Some (Inr \<lparr>zipFilename = ''t-anki-flashcards.zip'',
                    entries = [(''t-flashcards.txt'', ''T - Summary'' @ [TAB] @ ''S'')]\<rparr>)
   \<and> map_option pdfName (exportToPdf sampleEnv ''T'' ''S'' ''plain text'' Sans) = Some ''t.pdf''"
proof -
  have 1: "\<forall>l\<in>set (split NL ''plain text''). \<not> startsWith l ''# ''"
    by code_simp
  have 2: "\<forall>l\<in>set (split NL (processContentForExport (loadImages sampleEnv) ''plain text'')).
             \<not> startsWith l ''# ''"
    by code_simp
  have 3: "trim '' '' = []"
    by code_simp
  have 4: "trim ''S'' \<noteq> [] \<and> CHR ''<'' \<notin> set ''S'' \<and> CHR ''!'' \<notin> set ''S''"
    by code_simp
  have 5: "ankiZipFilename ''T'' = ''t-anki-flashcards.zip''" "pdfFilename ''T'' = ''t.pdf''"
    "ankiTsvFilename ''T'' = ''t-flashcards.txt''"
    "generateAnkiTSV [\<lparr>front = ''T'' @ '' - Summary'', back' = formatMarkdown sampleEnv ''S'',
        images = []\<rparr>] = ''T - Summary'' @ [TAB] @ ''S''"
    by code_simp+
  have a: "exportToAnki sampleEnv ''T'' '' '' ''plain text'' = Some (Inl noFlashcardsMessage)"
    using no_headings_export[OF 1, of "'' ''" sampleEnv "''T''" Sans] 3 by blast
  have b: "exportToAnki sampleEnv ''T'' ''S'' ''plain text''
       = Some (Inr \<lparr>zipFilename = ''t-anki-flashcards.zip'',
                    entries = [(''t-flashcards.txt'', ''T - Summary'' @ [TAB] @ ''S'')]\<rparr>)"
    using no_headings_export[OF 1, of "''S''" sampleEnv "''T''" Sans] 4 5 by metis
  have c: "map_option pdfName (exportToPdf sampleEnv ''T'' ''S'' ''plain text'' Sans) = Some ''t.pdf''"
    using no_headings_export[OF 1, of "''S''" sampleEnv "''T''" Sans] 2 5(2) by simp
  show ?thesis using a b c by blast
qed

text \<open>
  A body without any heading and the summary \<^verbatim>\<open>S\<close>: the flashcard export hands over an
  archive with the summary card, and the PDF export hands over a file with the title and
  the summary. Neither throws.
\<close>

theorem no_headings_export_counterexample:
  "exportToAnki sampleEnv ''T'' ''S'' ''plain text''
     = Some (Inr \<lparr>zipFilename = ''t-anki-flashcards.zip'',
                  entries = [(''t-flashcards.txt'', ''T - Summary'' @ [TAB] @ ''S'')]\<rparr>)
   \<and> exportToPdf sampleEnv ''T'' ''S'' ''plain text'' Sans \<noteq> None
   \<and> pdfName (the (exportToPdf sampleEnv ''T'' ''S'' ''plain text'' Sans)) = ''t.pdf''
   \<and> map snd (drawn (document (the (exportToPdf sampleEnv ''T'' ''S'' ''plain text'' Sans))))
       = [TextAt ''T'' 15 20, TextAt ''S'' 15 32, LineSeg 15 44 195 44]"
  by code_simp

end
